theory Spec2Isabelle
  imports Complex_Main "HOL-Library.Code_Target_Nat"
begin

section \<open>C library: characters, strings, scanf and printf conversions\<close>

text \<open>
  A C string is the list of its bytes before the terminating NUL. A pointer into a string
  is an index; \<open>peek s i\<close> is the byte \<open>s[i]\<close>, NUL at the terminator. The character
  classes are those of the C locale.
\<close>

definition c_isspace :: "char \<Rightarrow> bool" where
  "c_isspace c = (c \<in> set [CHR '' '', CHR 0x09, CHR 0x0A, CHR 0x0B, CHR 0x0C, CHR 0x0D])"

definition c_isdigit :: "char \<Rightarrow> bool" where
  "c_isdigit c = (c \<in> set ''0123456789'')"

definition c_tolower :: "char \<Rightarrow> char" where
  "c_tolower c =
     (case map_of (zip ''ABCDEFGHIJKLMNOPQRSTUVWXYZ'' ''abcdefghijklmnopqrstuvwxyz'') c of
        Some l \<Rightarrow> l
      | None \<Rightarrow> c)"

text \<open>\<open>strcasecmp(a, b) == 0\<close>.\<close>

definition strcasecmp_eq :: "string \<Rightarrow> string \<Rightarrow> bool" where
  "strcasecmp_eq a b = (map c_tolower a = map c_tolower b)"

definition peek :: "string \<Rightarrow> nat \<Rightarrow> char" where
  "peek s i = (if i < length s then s ! i else CHR 0x00)"

text \<open>\<open>while (*p && P(*p)) p++\<close> from index \<open>i\<close>: the scan stops at the terminator.\<close>

definition skip_while :: "(char \<Rightarrow> bool) \<Rightarrow> string \<Rightarrow> nat \<Rightarrow> nat" where
  "skip_while P s i = i + length (takeWhile P (drop i s))"

text \<open>\<open>while (p > lo && P(*(p - 1))) p--\<close> from index \<open>i\<close>.\<close>

fun back_while :: "(char \<Rightarrow> bool) \<Rightarrow> string \<Rightarrow> nat \<Rightarrow> nat \<Rightarrow> nat" where
  "back_while P s lo 0 = 0"
| "back_while P s lo (Suc i) =
     (if Suc i > lo \<and> P (peek s i) then back_while P s lo i else Suc i)"

text \<open>\<open>while (p > line && P(*p)) p--\<close> from index \<open>i\<close>: the byte at \<open>p\<close> itself is tested.\<close>

fun back_at_while :: "(char \<Rightarrow> bool) \<Rightarrow> string \<Rightarrow> nat \<Rightarrow> nat" where
  "back_at_while P s 0 = 0"
| "back_at_while P s (Suc i) = (if P (peek s (Suc i)) then back_at_while P s i else Suc i)"

text \<open>\<open>strstr(s, needle)\<close>, \<open>strchr(s + i, c)\<close> and \<open>strrchr(s, c)\<close> as indices into \<open>s\<close>
  (\<open>None\<close> for NULL).\<close>

fun strstr :: "string \<Rightarrow> string \<Rightarrow> nat option" where
  "strstr [] needle = (if needle = [] then Some 0 else None)"
| "strstr (c # cs) needle =
     (if take (length needle) (c # cs) = needle then Some 0
      else map_option Suc (strstr cs needle))"

definition strchr :: "string \<Rightarrow> nat \<Rightarrow> char \<Rightarrow> nat option" where
  "strchr s i c =
     (let k = i + length (takeWhile (\<lambda>x. x \<noteq> c) (drop i s))
      in if k < length s then Some k else None)"

definition strrchr :: "string \<Rightarrow> char \<Rightarrow> nat option" where
  "strrchr s c =
     (let k = length (takeWhile (\<lambda>x. x \<noteq> c) (rev s))
      in if k < length s then Some (length s - 1 - k) else None)"

text \<open>\<open>strncpy(buf, s + i, n); buf[n] = 0\<close> for a range inside the string.\<close>

definition substr :: "string \<Rightarrow> nat \<Rightarrow> nat \<Rightarrow> string" where
  "substr s i n = take n (drop i s)"

text \<open>
  The idiom \<open>end = buf + strlen(buf) - 1; while (end > buf && isspace(*end)) *end-- = 0\<close>:
  trailing white space is cut, but the first byte is never examined.
\<close>

definition trim_trailing :: "string \<Rightarrow> string" where
  "trim_trailing s =
     (case s of [] \<Rightarrow> [] | c # cs \<Rightarrow> c # rev (dropWhile c_isspace (rev cs)))"

text \<open>
  The loop that steps over \<open>n\<close> white-space separated fields:
  \<open>while (*p && count < n) { skip non-space; skip space; count++ }\<close>.
\<close>

fun skip_fields :: "nat \<Rightarrow> string \<Rightarrow> nat \<Rightarrow> nat" where
  "skip_fields 0 s p = p"
| "skip_fields (Suc n) s p =
     (if p < length s
      then skip_fields n s (skip_while c_isspace s (skip_while (\<lambda>c. \<not> c_isspace c) s p))
      else p)"

subsection \<open>scanf conversions\<close>

text \<open>
  \<open>%d\<close> skips white space, takes an optional sign and then at least one digit. The C
  library (glibc on a 64-bit target) converts the digits as \<open>strtol\<close> does, which
  saturates at \<open>LONG_MIN\<close> and \<open>LONG_MAX\<close>, and stores the \<open>long\<close> into the \<open>int\<close>, which
  keeps its low 32 bits: \<open>4294967297\<close> is read as 1. \<open>%s\<close> and \<open>%Ns\<close> skip white space
  and take the non-space bytes that follow, at most \<open>N\<close> of them, at least one. Each
  conversion returns what it read and the rest of the input, or \<open>None\<close> when it fails.
\<close>

definition digit_val :: "char \<Rightarrow> nat" where
  "digit_val c = length (takeWhile (\<lambda>d. d \<noteq> c) ''0123456789'')"

definition digits_val :: "string \<Rightarrow> nat" where
  "digits_val ds = foldl (\<lambda>n c. 10 * n + digit_val c) 0 ds"

definition strtol_value :: "int \<Rightarrow> int" where
  "strtol_value v = max (- 9223372036854775808) (min v 9223372036854775807)"

definition int_of_long :: "int \<Rightarrow> int" where
  "int_of_long v = (v + 2147483648) mod 4294967296 - 2147483648"

definition scan_d :: "string \<Rightarrow> (int \<times> string) option" where
  "scan_d s =
     (let t = dropWhile c_isspace s;
          neg = (t \<noteq> [] \<and> hd t = CHR ''-'');
          u = (if t \<noteq> [] \<and> (hd t = CHR ''-'' \<or> hd t = CHR ''+'') then tl t else t);
          ds = takeWhile c_isdigit u
      in if ds = [] then None
         else Some (int_of_long
                      (strtol_value (if neg then - int (digits_val ds) else int (digits_val ds))),
                    dropWhile c_isdigit u))"

definition scan_s :: "nat option \<Rightarrow> string \<Rightarrow> (string \<times> string) option" where
  "scan_s width s =
     (let t = dropWhile c_isspace s;
          tok = takeWhile (\<lambda>c. \<not> c_isspace c) t;
          tok' = (case width of None \<Rightarrow> tok | Some n \<Rightarrow> take n tok)
      in if tok' = [] then None else Some (tok', drop (length tok') t))"

text \<open>A literal character of the format: it must be the next byte of the input.\<close>

definition scan_lit :: "char \<Rightarrow> string \<Rightarrow> string option" where
  "scan_lit c s = (case s of [] \<Rightarrow> None | x # xs \<Rightarrow> if x = c then Some xs else None)"

text \<open>\<open>sscanf(s, "%d %9s", &day, month) == 2\<close> with the two values.\<close>

definition sscanf_d_s9 :: "string \<Rightarrow> (int \<times> string) option" where
  "sscanf_d_s9 s =
     (case scan_d s of
        None \<Rightarrow> None
      | Some (day, r) \<Rightarrow>
          (case scan_s (Some 9) r of None \<Rightarrow> None | Some (m, _) \<Rightarrow> Some (day, m)))"

text \<open>\<open>sscanf(s, "%d/%d/%d", &day, &month, &year) == 3\<close> with the three values.\<close>

definition sscanf_d_d_d :: "string \<Rightarrow> (int \<times> int \<times> int) option" where
  "sscanf_d_d_d s =
     (case scan_d s of
        None \<Rightarrow> None
      | Some (day, r1) \<Rightarrow>
          (case scan_lit CHR ''/'' r1 of
             None \<Rightarrow> None
           | Some r2 \<Rightarrow>
               (case scan_d r2 of
                  None \<Rightarrow> None
                | Some (month, r3) \<Rightarrow>
                    (case scan_lit CHR ''/'' r3 of
                       None \<Rightarrow> None
                     | Some r4 \<Rightarrow>
                         (case scan_d r4 of
                            None \<Rightarrow> None
                          | Some (year, _) \<Rightarrow> Some (day, month, year))))))"

text \<open>\<open>sscanf(s, "%14s %14s %9s", a, b, c) >= 3\<close> with the three tokens.\<close>

definition sscanf_s14_s14_s9 :: "string \<Rightarrow> (string \<times> string \<times> string) option" where
  "sscanf_s14_s14_s9 s =
     (case scan_s (Some 14) s of
        None \<Rightarrow> None
      | Some (a, r1) \<Rightarrow>
          (case scan_s (Some 14) r1 of
             None \<Rightarrow> None
           | Some (b, r2) \<Rightarrow>
               (case scan_s (Some 9) r2 of None \<Rightarrow> None | Some (c, _) \<Rightarrow> Some (a, b, c))))"

subsection \<open>printf conversions\<close>

fun show_nat :: "nat \<Rightarrow> string" where
  "show_nat n =
     (if n < 10 then [''0123456789'' ! n]
      else show_nat (n div 10) @ [''0123456789'' ! (n mod 10)])"

declare show_nat.simps [simp del]

text \<open>\<open>%d\<close> and \<open>%0Nd\<close>.\<close>

definition printf_d :: "int \<Rightarrow> string" where
  "printf_d i = (if i < 0 then CHR ''-'' # show_nat (nat (- i)) else show_nat (nat i))"

definition printf_0d :: "nat \<Rightarrow> int \<Rightarrow> string" where
  "printf_0d w i =
     (if i < 0
      then CHR ''-'' # replicate (w - 1 - length (show_nat (nat (- i)))) CHR ''0'' @
           show_nat (nat (- i))
      else replicate (w - length (show_nat (nat i))) CHR ''0'' @ show_nat (nat i))"

text \<open>\<open>snprintf(buf, n, ...)\<close> keeps at most \<open>n - 1\<close> bytes of the formatted text.\<close>

definition snprintf :: "nat \<Rightarrow> string \<Rightarrow> string" where
  "snprintf n s = take (n - 1) s"

text \<open>\<open>snprintf(iso_date, 11, "%04d-%02d-%02d", year, month, day)\<close>, used by both parsers.\<close>

definition format_iso_date :: "int \<Rightarrow> int \<Rightarrow> int \<Rightarrow> string" where
  "format_iso_date year month day =
     snprintf 11 (printf_0d 4 year @ ''-'' @ printf_0d 2 month @ ''-'' @ printf_0d 2 day)"


section \<open>Transaction record model (transaction.h, transaction.c)\<close>

text \<open>
  A C string pointer is a \<open>string option\<close>: \<open>None\<close> is the NULL pointer. A \<open>double\<close> is a
  value of the type parameter \<open>'a\<close>; the parsers only store amounts, compare them with zero
  and receive them from the C library's number scanner, which is a parameter of the model.
  Memory allocation is taken to succeed (\<open>malloc\<close>, \<open>realloc\<close> and \<open>safe_strdup\<close> of a
  non-NULL string never return NULL).
\<close>

record 'a Transaction =
  date :: "string option"
  description :: "string option"
  debit :: 'a
  credit :: 'a
  category :: "string option"

record 'a ParseResult =
  account_number :: "string option"
  statement_period :: "string option"
  transactions :: "'a Transaction list"
  error_message :: "string option"

definition safe_strdup :: "string option \<Rightarrow> string option" where
  "safe_strdup str = str"

definition create_parse_result :: "'a ParseResult" where
  "create_parse_result =
     \<lparr>account_number = None, statement_period = None, transactions = [], error_message = None\<rparr>"

definition add_transaction_to_result ::
  "'a ParseResult \<Rightarrow> string option \<Rightarrow> string option \<Rightarrow> 'a \<Rightarrow> 'a \<Rightarrow> string option \<Rightarrow> 'a ParseResult"
where
  "add_transaction_to_result pr dt descr db cr cat =
     pr\<lparr>transactions := transactions pr @
        [\<lparr>date = safe_strdup dt, description = safe_strdup descr, debit = db, credit = cr,
          category = safe_strdup cat\<rparr>]\<rparr>"

text \<open>
  \<open>strtok(copy, "\n\r")\<close> called until it returns NULL: the non-empty runs of bytes other
  than line feed and carriage return, in order. Each token comes with the byte that
  precedes it in the buffer once \<open>strtok\<close> has written its terminators: the delimiter
  left in place, the NUL that ended the token before, or for a token at the very start
  the byte \<open>b\<close> that lies before the buffer.
\<close>

definition is_line_delim :: "char \<Rightarrow> bool" where
  "is_line_delim c = (c = CHR 0x0A \<or> c = CHR 0x0D)"

fun strtok_scan :: "char \<Rightarrow> string option \<Rightarrow> string \<Rightarrow> (char \<times> string) list" where
  "strtok_scan b None [] = []"
| "strtok_scan b (Some t) [] = [(b, t)]"
| "strtok_scan b None (c # cs) =
     (if is_line_delim c then strtok_scan c None cs else strtok_scan b (Some [c]) cs)"
| "strtok_scan b (Some t) (c # cs) =
     (if is_line_delim c then (b, t) # strtok_scan (CHR 0x00) None cs
      else strtok_scan b (Some (t @ [c])) cs)"

definition strtok_lines :: "string \<Rightarrow> string list" where
  "strtok_lines content = map snd (strtok_scan (CHR 0x00) None content)"

section \<open>CBA statement parser (parsers/cba_parser.c)\<close>

text \<open>
  The loop of \<open>extract_account_number\<close> that finds the end of the number: it stops at a
  line end, and at white space unless the next non-space byte continues the number
  (\<open>P\<close>: a digit for CBA; a digit or a hyphen for ANZ).
\<close>

lemma skip_while_advances:
  "i < length s \<Longrightarrow> P (s ! i) \<Longrightarrow> i < skip_while P s i"
  by (cases "drop i s") (auto simp: skip_while_def hd_drop_conv_nth dest: arg_cong [where f = hd])

function account_end :: "(char \<Rightarrow> bool) \<Rightarrow> string \<Rightarrow> nat \<Rightarrow> nat" where
  "account_end P s e =
     (if e < length s \<and> s ! e \<noteq> CHR 0x0A \<and> s ! e \<noteq> CHR 0x0D
      then if c_isspace (s ! e)
           then (let temp = skip_while c_isspace s e
                 in if temp < length s \<and> P (s ! temp) then account_end P s temp else e)
           else account_end P s (e + 1)
      else e)"
  by pat_completeness auto
termination
  by (relation "measure (\<lambda>(P, s, e). length s - e)")
     (auto simp: skip_while_advances diff_less_mono2)

declare account_end.simps [simp del]

definition extract_account_number :: "string \<Rightarrow> string option" where
  "extract_account_number content =
     (case strstr content ''Account Number'' of
        None \<Rightarrow> None
      | Some found \<Rightarrow>
          (let start = skip_while (\<lambda>c. c_isspace c \<or> c = CHR '':'') content
                         (found + length ''Account Number'');
               e = account_end c_isdigit content start;
               len = e - start
           in if len = 0 then None else Some (trim_trailing (substr content start len))))"

definition extract_statement_period :: "string \<Rightarrow> string option" where
  "extract_statement_period content =
     (case strstr content ''Statement Period'' of
        None \<Rightarrow> None
      | Some found \<Rightarrow>
          (let start = skip_while (\<lambda>c. c_isspace c \<or> c = CHR '':'') content
                         (found + length ''Statement Period'');
               e = skip_while (\<lambda>c. c \<noteq> CHR 0x0A \<and> c \<noteq> CHR 0x0D) content start;
               len = e - start
           in if len = 0 then None else Some (trim_trailing (substr content start len))))"

definition months :: "string list" where
  "months = [''Jan'', ''Feb'', ''Mar'', ''Apr'', ''May'', ''Jun'',
             ''Jul'', ''Aug'', ''Sep'', ''Oct'', ''Nov'', ''Dec'']"

text \<open>The month lookup loop: \<open>i + 1\<close> for the first table entry equal to the token up to
  case, \<open>-1\<close> when there is none.\<close>

fun month_loop :: "string \<Rightarrow> string list \<Rightarrow> int \<Rightarrow> int" where
  "month_loop month_str [] i = - 1"
| "month_loop month_str (m # ms) i =
     (if strcasecmp_eq month_str m then i + 1 else month_loop month_str ms (i + 1))"

text \<open>
  \<open>start_year\<close> and \<open>end_year\<close> after
  \<open>sscanf(statement_period, "%*d %*s %d - %*d %*s %d", &start_year, &end_year)\<close>:
  both start at 2025 and keep that value when the period is NULL or the scan stops
  before the assignment.
\<close>

definition scan_end_year :: "string \<Rightarrow> int option" where
  "scan_end_year r =
     (case scan_lit CHR ''-'' (dropWhile c_isspace r) of
        None \<Rightarrow> None
      | Some r1 \<Rightarrow>
          (case scan_d r1 of
             None \<Rightarrow> None
           | Some (_, r2) \<Rightarrow>
               (case scan_s None r2 of
                  None \<Rightarrow> None
                | Some (_, r3) \<Rightarrow>
                    (case scan_d r3 of None \<Rightarrow> None | Some (y, _) \<Rightarrow> Some y))))"

definition period_years :: "string option \<Rightarrow> int \<times> int" where
  "period_years period =
     (case period of
        None \<Rightarrow> (2025, 2025)
      | Some sp \<Rightarrow>
          (case scan_d sp of
             None \<Rightarrow> (2025, 2025)
           | Some (_, r1) \<Rightarrow>
               (case scan_s None r1 of
                  None \<Rightarrow> (2025, 2025)
                | Some (_, r2) \<Rightarrow>
                    (case scan_d r2 of
                       None \<Rightarrow> (2025, 2025)
                     | Some (start_year, r3) \<Rightarrow>
                         (case scan_end_year r3 of
                            None \<Rightarrow> (start_year, 2025)
                          | Some end_year \<Rightarrow> (start_year, end_year))))))"

definition parse_cba_date :: "string option \<Rightarrow> string option \<Rightarrow> string option" where
  "parse_cba_date date_str period =
     (case date_str of
        None \<Rightarrow> None
      | Some ds \<Rightarrow>
          (case sscanf_d_s9 ds of
             None \<Rightarrow> None
           | Some (day, month_str) \<Rightarrow>
               (let month = month_loop month_str months 0
                in if month = - 1 then None
                   else (let start_year = fst (period_years period);
                             end_year = snd (period_years period);
                             year = (if month \<le> 6 \<and> start_year \<noteq> end_year
                                     then end_year else start_year)
                         in if day < 1 \<or> day > 31 \<or> month < 1 \<or> month > 12 \<or> year < 1900
                            then None
                            else Some (format_iso_date year month day)))))"

text \<open>
  \<open>parse_cba_amount\<close>: the cleaning loop drops commas and dollar signs and repeated
  blanks and fills at most 99 bytes; the cleaned text is trimmed and handed to
  \<open>sscanf("%lf")\<close>. That conversion is the parameter \<open>lf\<close> (\<open>None\<close> unless it returns 1).
  The result is the pair (\<open>*debit\<close>, \<open>*credit\<close>), \<open>None\<close> for the return value 0.
\<close>

fun cba_clean :: "string \<Rightarrow> string \<Rightarrow> string" where
  "cba_clean [] cleaned = cleaned"
| "cba_clean (c # cs) cleaned =
     (if length cleaned < 99
      then if c = CHR '','' \<or> c = CHR ''$'' then cba_clean cs cleaned
           else if c = CHR '' '' \<and> cleaned \<noteq> [] \<and> last cleaned = CHR '' ''
                then cba_clean cs cleaned
                else cba_clean cs (cleaned @ [c])
      else cleaned)"

definition parse_cba_amount :: "(string \<Rightarrow> 'a option) \<Rightarrow> string \<Rightarrow> ('a::zero \<times> 'a) option" where
  "parse_cba_amount lf amount_str =
     (let start = trim_trailing (dropWhile c_isspace (cba_clean amount_str []))
      in if start = [] then None
         else (case lf start of None \<Rightarrow> None | Some amount \<Rightarrow> Some (0, amount)))"

definition cba_is_amount_char :: "char \<Rightarrow> bool" where
  "cba_is_amount_char c = (c_isdigit c \<or> c = CHR '','' \<or> c = CHR ''.'')"

text \<open>
  The block that both branches of the debit search run, from their own \<open>debit_end\<close>:
  scan back over digits, commas and points; when that run starts with a digit, parse it
  as the debit and move \<open>amounts_end\<close> before it. The result is (\<open>debit\<close>, \<open>amounts_end\<close>).
\<close>

definition cba_scan_debit ::
  "(string \<Rightarrow> 'a option) \<Rightarrow> string \<Rightarrow> nat \<Rightarrow> nat \<Rightarrow> nat \<Rightarrow> 'a::zero \<Rightarrow> 'a \<times> nat"
where
  "cba_scan_debit lf line desc_start debit_end amounts_end debit0 =
     (let debit_start = back_while cba_is_amount_char line desc_start debit_end
      in if debit_start < debit_end \<and> c_isdigit (peek line debit_start)
         then (let debit_len = debit_end - debit_start
               in (if debit_len > 0 \<and> debit_len < 49
                   then (case parse_cba_amount lf (substr line debit_start debit_len) of
                           None \<Rightarrow> debit0
                         | Some (temp_debit, temp_credit) \<Rightarrow> temp_credit)
                   else debit0,
                   back_while c_isspace line desc_start debit_start))
         else (debit0, amounts_end))"

text \<open>The loop that finds the last dollar sign before \<open>amounts_end\<close> that a digit follows.\<close>

lemma strchr_ge: "strchr s i c = Some k \<Longrightarrow> i \<le> k"
  by (auto simp: strchr_def Let_def split: if_splits)

function cba_last_credit :: "string \<Rightarrow> nat \<Rightarrow> nat \<Rightarrow> nat option \<Rightarrow> nat option" where
  "cba_last_credit line amounts_end search_pos credit_pos =
     (if search_pos < amounts_end
      then (case strchr line search_pos CHR ''$'' of
              None \<Rightarrow> credit_pos
            | Some dollar \<Rightarrow>
                if dollar \<ge> amounts_end then credit_pos
                else cba_last_credit line amounts_end (dollar + 1)
                       (if c_isdigit (peek line (dollar + 1)) then Some dollar else credit_pos))
      else credit_pos)"
  by pat_completeness auto
termination
  by (relation "measure (\<lambda>(line, amounts_end, search_pos, credit_pos). amounts_end - search_pos)")
     (auto dest: strchr_ge)

declare cba_last_credit.simps [simp del]

text \<open>
  The credit block: from the dollar sign at \<open>credit_pos\<close> take the digits, commas and
  points that follow, up to \<open>amounts_end\<close>; parse the text, dollar sign included, as the
  credit and move \<open>amounts_end\<close> before it. The result is (\<open>credit\<close>, \<open>amounts_end\<close>).
\<close>

definition cba_scan_credit ::
  "(string \<Rightarrow> 'a option) \<Rightarrow> string \<Rightarrow> nat \<Rightarrow> nat option \<Rightarrow> nat \<Rightarrow> 'a::zero \<Rightarrow> 'a \<times> nat"
where
  "cba_scan_credit lf line desc_start credit_pos amounts_end credit0 =
     (case credit_pos of
        None \<Rightarrow> (credit0, amounts_end)
      | Some credit_start \<Rightarrow>
          if credit_start < amounts_end
          then (let credit_end = credit_start + 1 +
                      length (takeWhile cba_is_amount_char
                        (take (amounts_end - (credit_start + 1)) (drop (credit_start + 1) line)));
                    credit_len = credit_end - credit_start
                in (if credit_len > 0 \<and> credit_len < 49
                    then (case parse_cba_amount lf (substr line credit_start credit_len) of
                            None \<Rightarrow> credit0
                          | Some (temp_debit, temp_credit) \<Rightarrow> temp_credit)
                    else credit0,
                    back_while c_isspace line desc_start credit_start))
          else (credit0, amounts_end))"

text \<open>
  \<open>process_cba_transaction_line\<close>. The description length is a \<open>size_t\<close>: when
  \<open>amounts_end\<close> lies before \<open>desc_start\<close> the difference wraps to a huge value and the
  test \<open>desc_len < 499\<close> fails, so the description stays empty.
\<close>

definition process_cba_transaction_line ::
  "(string \<Rightarrow> 'a option) \<Rightarrow> string \<Rightarrow> ('a::{zero,ord}) ParseResult \<Rightarrow> 'a ParseResult"
where
  "process_cba_transaction_line lf transaction_line result =
     (case sscanf_d_s9 transaction_line of
        None \<Rightarrow> result
      | Some (day, month_str) \<Rightarrow>
          (case parse_cba_date (Some (snprintf 20 (printf_d day @ '' '' @ month_str)))
                  (statement_period result) of
             None \<Rightarrow> result
           | Some iso_date \<Rightarrow>
               (let desc_start = skip_fields 2 transaction_line 0
                in case strstr transaction_line '' CR'' of
                     None \<Rightarrow> result
                   | Some balance_pos \<Rightarrow>
                       (let balance_dollar = back_at_while (\<lambda>c. c \<noteq> CHR ''$'') transaction_line
                                               balance_pos;
                            amounts_end0 = back_while c_isspace transaction_line desc_start
                                             balance_dollar;
                            debit_pattern = strstr transaction_line '' ('';
                            debit_end = (case debit_pattern of
                                           None \<Rightarrow> amounts_end0
                                         | Some dp \<Rightarrow> if dp < amounts_end0 then dp
                                                      else amounts_end0);
                            da = cba_scan_debit lf transaction_line desc_start debit_end
                                   amounts_end0 0;
                            debit = fst da;
                            amounts_end1 = snd da;
                            credit_pos = cba_last_credit transaction_line amounts_end1
                                           desc_start None;
                            ca = cba_scan_credit lf transaction_line desc_start credit_pos
                                   amounts_end1 0;
                            credit = fst ca;
                            amounts_end = snd ca;
                            description =
                              (if desc_start < amounts_end \<and> amounts_end - desc_start < 499
                               then trim_trailing
                                      (substr transaction_line desc_start (amounts_end - desc_start))
                               else [])
                        in if description \<noteq> [] \<and> (debit > 0 \<or> credit > 0)
                           then add_transaction_to_result result (Some iso_date)
                                  (Some description) debit credit None
                           else result))))"

text \<open>\<open>sscanf(line, "%d %9s", &day, month) == 2 && day >= 1 && day <= 31\<close>: the line starts
  a transaction.\<close>

definition cba_is_start :: "string \<Rightarrow> bool" where
  "cba_is_start line =
     (case sscanf_d_s9 line of None \<Rightarrow> False | Some (day, m) \<Rightarrow> day \<ge> 1 \<and> day \<le> 31)"

text \<open>\<open>if (current_transaction) process_cba_transaction_line(current_transaction, result)\<close>,
  which the parser runs before each new start line and after the last line.\<close>

definition cba_flush ::
  "(string \<Rightarrow> 'a option) \<Rightarrow> string option \<Rightarrow> ('a::{zero,ord}) ParseResult \<Rightarrow> 'a ParseResult"
where
  "cba_flush lf current_transaction result =
     (case current_transaction of
        None \<Rightarrow> result
      | Some t \<Rightarrow> process_cba_transaction_line lf t result)"

text \<open>
  The line loop of \<open>parse_cba_statement\<close>, with the pending \<open>current_transaction\<close> and the
  result as its state: a start line flushes the pending transaction and becomes the new
  one; any other non-blank line is appended to the pending one after a blank.
\<close>

fun cba_lines :: "(string \<Rightarrow> 'a option) \<Rightarrow> string list \<Rightarrow> string option \<Rightarrow>
    ('a::{zero,ord}) ParseResult \<Rightarrow> string option \<times> 'a ParseResult" where
  "cba_lines lf [] current_transaction result = (current_transaction, result)"
| "cba_lines lf (l # ls) current_transaction result =
     (let line = dropWhile c_isspace l
      in if line = [] then cba_lines lf ls current_transaction result
         else if cba_is_start line
         then cba_lines lf ls (Some line) (cba_flush lf current_transaction result)
         else (case current_transaction of
                 None \<Rightarrow> cba_lines lf ls None result
               | Some t \<Rightarrow> cba_lines lf ls (Some (t @ '' '' @ line)) result))"

text \<open>
  \<open>parse_cba_statement\<close>: NULL content gives NULL. The AI configuration is only logged
  here (the text parser always runs), so the global configuration is not a parameter.
\<close>

definition parse_cba_statement ::
  "(string \<Rightarrow> 'a option) \<Rightarrow> string option \<Rightarrow> ('a::{zero,ord}) ParseResult option"
where
  "parse_cba_statement lf content =
     (case content of
        None \<Rightarrow> None
      | Some c \<Rightarrow>
          (let result = create_parse_result
                 \<lparr>account_number := extract_account_number c,
                  statement_period := extract_statement_period c\<rparr>;
               st = cba_lines lf (strtok_lines c) None result
           in Some (cba_flush lf (fst st) (snd st))))"

text \<open>
  The accumulated transaction lines of a statement, stated on their own: each start line
  together with the non-blank lines that follow it up to the next start line, joined by
  single blanks. \<open>parse_cba_statement\<close> is compared with this below.
\<close>

fun cba_accumulated_lines :: "string list \<Rightarrow> string option \<Rightarrow> string list" where
  "cba_accumulated_lines [] pending = (case pending of None \<Rightarrow> [] | Some t \<Rightarrow> [t])"
| "cba_accumulated_lines (l # ls) pending =
     (let line = dropWhile c_isspace l
      in if line = [] then cba_accumulated_lines ls pending
         else if cba_is_start line
         then (case pending of None \<Rightarrow> [] | Some t \<Rightarrow> [t]) @
              cba_accumulated_lines ls (Some line)
         else (case pending of
                 None \<Rightarrow> cba_accumulated_lines ls None
               | Some t \<Rightarrow> cba_accumulated_lines ls (Some (t @ '' '' @ line))))"

text \<open>
  \<open>sscanf("%lf")\<close> on text made of digits and points only, which is all that
  \<open>process_cba_transaction_line\<close> can pass on after cleaning: digits, an optional point and
  more digits, at least one digit in all; the value is the exact decimal number.
\<close>

definition scan_lf_decimal :: "string \<Rightarrow> rat option" where
  "scan_lf_decimal s =
     (let ip = takeWhile c_isdigit s;
          r = dropWhile c_isdigit s;
          fp = (if r \<noteq> [] \<and> hd r = CHR ''.'' then takeWhile c_isdigit (tl r) else [])
      in if ip = [] \<and> fp = [] then None
         else Some (of_nat (digits_val ip) + of_nat (digits_val fp) / 10 ^ length fp))"

section \<open>ANZ statement parser (parsers/anz_parser.c)\<close>

definition extract_anz_account_number :: "string \<Rightarrow> string option" where
  "extract_anz_account_number content =
     (case strstr content ''ACCOUNT NUMBER:'' of
        None \<Rightarrow> None
      | Some found \<Rightarrow>
          (let start = skip_while c_isspace content (found + length ''ACCOUNT NUMBER:'');
               e = account_end (\<lambda>c. c_isdigit c \<or> c = CHR ''-'') content start;
               len = e - start
           in if len = 0 then None else Some (trim_trailing (substr content start len))))"

definition parse_anz_date :: "string option \<Rightarrow> string option" where
  "parse_anz_date date_str =
     (case date_str of
        None \<Rightarrow> None
      | Some ds \<Rightarrow>
          (case sscanf_d_d_d ds of
             None \<Rightarrow> None
           | Some (day, month, year) \<Rightarrow>
               if day < 1 \<or> day > 31 \<or> month < 1 \<or> month > 12 \<or> year < 1900 then None
               else Some (format_iso_date year month day)))"

text \<open>
  \<open>parse_anz_amount\<close>: the cleaning loop drops commas and dollar signs and repeated
  blanks, stops at the letters CR (setting \<open>has_cr\<close>) and fills at most 99 bytes; the
  cleaned text goes to \<open>sscanf("%lf")\<close>, the parameter \<open>lf\<close>. The result is the pair
  (\<open>*debit\<close>, \<open>*credit\<close>), \<open>None\<close> for the return value 0.
\<close>

fun anz_clean :: "string \<Rightarrow> string \<Rightarrow> string \<times> bool" where
  "anz_clean [] cleaned = (cleaned, False)"
| "anz_clean (c # cs) cleaned =
     (if length cleaned < 99
      then if c = CHR '','' \<or> c = CHR ''$'' then anz_clean cs cleaned
           else if c = CHR ''C'' \<and> cs \<noteq> [] \<and> hd cs = CHR ''R'' then (cleaned, True)
           else if c = CHR '' '' \<and> cleaned \<noteq> [] \<and> last cleaned = CHR '' ''
                then anz_clean cs cleaned
                else anz_clean cs (cleaned @ [c])
      else (cleaned, False))"

definition parse_anz_amount :: "(string \<Rightarrow> 'a option) \<Rightarrow> string \<Rightarrow> ('a::zero \<times> 'a) option" where
  "parse_anz_amount lf amount_str =
     (let cleaned = fst (anz_clean amount_str []);
          has_cr = snd (anz_clean amount_str [])
      in case lf cleaned of
           None \<Rightarrow> None
         | Some amount \<Rightarrow> Some (if has_cr then (0, amount) else (amount, 0)))"

definition is_anz_transaction_line :: "string \<Rightarrow> bool" where
  "is_anz_transaction_line line =
     (case sscanf_d_d_d (dropWhile c_isspace line) of
        None \<Rightarrow> False
      | Some (day, month, year) \<Rightarrow>
          day \<ge> 1 \<and> day \<le> 31 \<and> month \<ge> 1 \<and> month \<le> 12 \<and> year \<ge> 1900)"

text \<open>
  The field search of \<open>process_anz_transaction_line\<close> on the line without its leading
  white space. The amount text runs from the start of the token that holds the dollar
  sign at \<open>txn_amount_end\<close> to the next white space or to \<open>balance_start\<close>; the
  description runs from the fourth field to that token.
\<close>

definition anz_amount_str :: "string \<Rightarrow> nat \<Rightarrow> nat \<Rightarrow> nat \<Rightarrow> string" where
  "anz_amount_str line txn_amount_start txn_amount_end balance_start =
     (let len0 = txn_amount_end - txn_amount_start + 1;
          amount_len = len0 +
            length (takeWhile (\<lambda>c. \<not> c_isspace c)
              (take (balance_start - (txn_amount_start + len0))
                (drop (txn_amount_start + len0) line)))
      in if amount_len > 0 \<and> amount_len < 49
         then trim_trailing (substr line txn_amount_start amount_len)
         else [])"

definition anz_description :: "string \<Rightarrow> nat \<Rightarrow> string" where
  "anz_description line txn_amount_start =
     (let p = skip_fields 3 line 0;
          desc_len = txn_amount_start - p
      in if p < txn_amount_start \<and> desc_len > 0 \<and> desc_len < 499
         then trim_trailing (substr line p desc_len)
         else [])"

text \<open>
  The amount text and the description, or \<open>None\<close> where the function returns early.

  When no white space precedes the last dollar sign, \<open>balance_start\<close> is the start of the
  line and \<open>txn_amount_end = balance_start - 1\<close> points before it; the function then reads
  that byte, \<open>b\<close> here. If it is not a dollar sign the function returns. If it is, the
  amount text is that single byte, and the description stays empty because
  \<open>p < txn_amount_start\<close> fails.
\<close>

definition anz_fields :: "char \<Rightarrow> string \<Rightarrow> (string \<times> string) option" where
  "anz_fields b line =
     (case strrchr line CHR ''$'' of
        None \<Rightarrow> None
      | Some last_dollar \<Rightarrow>
          (let balance_start = back_while (\<lambda>c. \<not> c_isspace c) line 0 last_dollar
           in if balance_start = 0
              then (if b \<noteq> CHR ''$'' then None else Some (''$'', []))
              else (let e0 = back_at_while c_isspace line (balance_start - 1);
                        txn_amount_end =
                          (if peek line e0 \<noteq> CHR ''$'' \<and> e0 > 0
                           then back_at_while (\<lambda>c. c \<noteq> CHR ''$'') line e0 else e0)
                    in if peek line txn_amount_end \<noteq> CHR ''$'' then None
                       else (let txn_amount_start =
                                   back_while (\<lambda>c. \<not> c_isspace c) line 0 txn_amount_end
                             in Some (anz_amount_str line txn_amount_start txn_amount_end
                                        balance_start,
                                      anz_description line txn_amount_start)))))"

text \<open>
  \<open>process_anz_transaction_line\<close>; \<open>b\<close> is the byte that precedes the line in memory (when
  the line has leading white space, the byte before its first non-space byte is the
  last of that white space).
\<close>

definition process_anz_transaction_line ::
  "(string \<Rightarrow> 'a option) \<Rightarrow> char \<Rightarrow> string \<Rightarrow> ('a::zero) ParseResult \<Rightarrow> 'a ParseResult"
where
  "process_anz_transaction_line lf b line0 result =
     (let line = dropWhile c_isspace line0;
          b' = (if takeWhile c_isspace line0 = [] then b else last (takeWhile c_isspace line0))
      in if line = [] then result
         else (case sscanf_s14_s14_s9 line of
                 None \<Rightarrow> result
               | Some (processed_date, transaction_date, card_field) \<Rightarrow>
                   (case anz_fields b' line of
                      None \<Rightarrow> result
                    | Some (amount_str, descr) \<Rightarrow>
                        (case parse_anz_amount lf amount_str of
                           None \<Rightarrow> result
                         | Some (amount_debit, amount_credit) \<Rightarrow>
                             (case parse_anz_date (Some processed_date) of
                                None \<Rightarrow> result
                              | Some iso_date \<Rightarrow>
                                  if processed_date \<noteq> transaction_date
                                  then add_transaction_to_result result (Some iso_date)
                                         (Some (snprintf 600
                                            (descr @ '' [Txn Date: '' @ transaction_date @ '']'')))
                                         amount_debit amount_credit None
                                  else add_transaction_to_result result (Some iso_date)
                                         (Some descr) amount_debit amount_credit None)))))"

text \<open>The line loop of \<open>parse_anz_statement\<close> over the tokens of \<open>strtok\<close>.\<close>

fun anz_lines :: "(string \<Rightarrow> 'a option) \<Rightarrow> (char \<times> string) list \<Rightarrow> ('a::zero) ParseResult \<Rightarrow>
    'a ParseResult" where
  "anz_lines lf [] result = result"
| "anz_lines lf ((b, line) # ls) result =
     anz_lines lf ls
       (if is_anz_transaction_line line then process_anz_transaction_line lf b line result
        else result)"

text \<open>\<open>parse_anz_statement\<close>; \<open>b\<close> is the byte that lies before the copy of the content.\<close>

definition parse_anz_statement ::
  "(string \<Rightarrow> 'a option) \<Rightarrow> char \<Rightarrow> string option \<Rightarrow> ('a::zero) ParseResult option"
where
  "parse_anz_statement lf b content =
     (case content of
        None \<Rightarrow> None
      | Some c \<Rightarrow>
          Some (anz_lines lf (strtok_scan b None c)
                  (create_parse_result\<lparr>account_number := extract_anz_account_number c\<rparr>)))"

section \<open>AI service (ai/ai_service.c)\<close>

text \<open>
  The cJSON library is outside the repository. A parsed document is a tree; an object
  keeps its members in order. \<open>cJSON_GetObjectItem\<close> returns the first member whose name
  equals the key up to case (NULL for anything but an object), and the type tests are
  false on NULL. \<open>cJSON_Parse\<close> itself is a parameter of the functions that call it.
\<close>

datatype 'a cJSON =
    cJSON_Null
  | cJSON_False
  | cJSON_True
  | cJSON_Number 'a
  | cJSON_String string
  | cJSON_Array "'a cJSON list"
  | cJSON_Object "(string \<times> 'a cJSON) list"

fun get_member :: "(string \<times> 'a cJSON) list \<Rightarrow> string \<Rightarrow> 'a cJSON option" where
  "get_member [] name = None"
| "get_member ((k, v) # kvs) name = (if strcasecmp_eq name k then Some v else get_member kvs name)"

definition cJSON_GetObjectItem :: "'a cJSON \<Rightarrow> string \<Rightarrow> 'a cJSON option" where
  "cJSON_GetObjectItem object name =
     (case object of cJSON_Object kvs \<Rightarrow> get_member kvs name | _ \<Rightarrow> None)"

definition cJSON_IsString :: "'a cJSON option \<Rightarrow> bool" where
  "cJSON_IsString item = (case item of Some (cJSON_String s) \<Rightarrow> True | _ \<Rightarrow> False)"

definition cJSON_IsNumber :: "'a cJSON option \<Rightarrow> bool" where
  "cJSON_IsNumber item = (case item of Some (cJSON_Number x) \<Rightarrow> True | _ \<Rightarrow> False)"

definition cJSON_IsArray :: "'a cJSON option \<Rightarrow> bool" where
  "cJSON_IsArray item = (case item of Some (cJSON_Array xs) \<Rightarrow> True | _ \<Rightarrow> False)"

definition cJSON_IsNull :: "'a cJSON option \<Rightarrow> bool" where
  "cJSON_IsNull item = (case item of Some cJSON_Null \<Rightarrow> True | _ \<Rightarrow> False)"

text \<open>\<open>cJSON_GetStringValue\<close> is NULL and \<open>cJSON_GetNumberValue\<close> is NaN (the parameter
  \<open>nan\<close>) when the item has another type.\<close>

definition cJSON_GetStringValue :: "'a cJSON option \<Rightarrow> string option" where
  "cJSON_GetStringValue item = (case item of Some (cJSON_String s) \<Rightarrow> Some s | _ \<Rightarrow> None)"

definition cJSON_GetNumberValue :: "'a \<Rightarrow> 'a cJSON option \<Rightarrow> 'a" where
  "cJSON_GetNumberValue nan item = (case item of Some (cJSON_Number x) \<Rightarrow> x | _ \<Rightarrow> nan)"

definition array_items :: "'a cJSON option \<Rightarrow> 'a cJSON list" where
  "array_items item = (case item of Some (cJSON_Array xs) \<Rightarrow> xs | _ \<Rightarrow> [])"

text \<open>\<open>is_valid_iso_date\<close>: length 10 and the POSIX pattern
  \<open>^[0-9]{4}-[0-9]{2}-[0-9]{2}$\<close>.\<close>

definition is_valid_iso_date :: "string option \<Rightarrow> bool" where
  "is_valid_iso_date date_str =
     (case date_str of
        None \<Rightarrow> False
      | Some d \<Rightarrow>
          length d = 10 \<and> list_all c_isdigit (take 4 d) \<and> d ! 4 = CHR ''-'' \<and>
          list_all c_isdigit (take 2 (drop 5 d)) \<and> d ! 7 = CHR ''-'' \<and>
          list_all c_isdigit (drop 8 d))"

definition is_valid_amount :: "('a::{zero,ord}) \<Rightarrow> bool" where
  "is_valid_amount amount = (amount \<ge> 0)"

text \<open>The body of the loop over the transactions array: \<open>True\<close> where the C code returns
  \<open>-1\<close> for this entry.\<close>

definition transaction_rejected :: "('a::{zero,ord}) \<Rightarrow> 'a cJSON \<Rightarrow> bool" where
  "transaction_rejected nan tr =
     (let dt = cJSON_GetObjectItem tr ''date'';
          ds = cJSON_GetObjectItem tr ''description'';
          db = cJSON_GetObjectItem tr ''debit'';
          cr = cJSON_GetObjectItem tr ''credit'';
          bl = cJSON_GetObjectItem tr ''balance''
      in if dt = None \<or> ds = None \<or> db = None \<or> cr = None \<or> bl = None then True
         else if (if cJSON_IsString dt then \<not> is_valid_iso_date (cJSON_GetStringValue dt)
                  else True) then True
         else if \<not> cJSON_IsString ds then True
         else if cJSON_IsNumber db \<and> \<not> is_valid_amount (cJSON_GetNumberValue nan db) then True
         else if cJSON_IsNumber cr \<and> \<not> is_valid_amount (cJSON_GetNumberValue nan cr) then True
         else if (if cJSON_IsNumber bl then \<not> is_valid_amount (cJSON_GetNumberValue nan bl)
                  else True) then True
         else False)"

fun validate_transactions :: "('a::{zero,ord}) \<Rightarrow> 'a cJSON list \<Rightarrow> int" where
  "validate_transactions nan [] = 0"
| "validate_transactions nan (tr # rest) =
     (if transaction_rejected nan tr then - 1 else validate_transactions nan rest)"

text \<open>\<open>validate_cba_json_response\<close>: 0 when the response is accepted, \<open>-1\<close> otherwise.\<close>

definition validate_cba_json_response ::
  "(string \<Rightarrow> 'a cJSON option) \<Rightarrow> ('a::{zero,ord}) \<Rightarrow> string option \<Rightarrow> int"
where
  "validate_cba_json_response cJSON_Parse nan json_str =
     (case json_str of
        None \<Rightarrow> - 1
      | Some js \<Rightarrow>
          (case cJSON_Parse js of
             None \<Rightarrow> - 1
           | Some json \<Rightarrow>
               if \<not> cJSON_IsString (cJSON_GetObjectItem json ''account_number'') then - 1
               else if \<not> cJSON_IsString (cJSON_GetObjectItem json ''statement_period'') then - 1
               else if \<not> cJSON_IsArray (cJSON_GetObjectItem json ''transactions'') then - 1
               else validate_transactions nan
                      (array_items (cJSON_GetObjectItem json ''transactions''))))"

text \<open>The conversion loop of \<open>parse_cba_json_to_result\<close> for one array entry.\<close>

definition json_transaction :: "('a::zero) \<Rightarrow> 'a cJSON \<Rightarrow> 'a Transaction" where
  "json_transaction nan tr =
     \<lparr>date = cJSON_GetStringValue (cJSON_GetObjectItem tr ''date''),
      description = cJSON_GetStringValue (cJSON_GetObjectItem tr ''description''),
      debit = (if cJSON_IsNull (cJSON_GetObjectItem tr ''debit'') then 0
               else cJSON_GetNumberValue nan (cJSON_GetObjectItem tr ''debit'')),
      credit = (if cJSON_IsNull (cJSON_GetObjectItem tr ''credit'') then 0
                else cJSON_GetNumberValue nan (cJSON_GetObjectItem tr ''credit'')),
      category = None\<rparr>"

definition parse_cba_json_to_result ::
  "(string \<Rightarrow> 'a cJSON option) \<Rightarrow> ('a::{zero,ord}) \<Rightarrow> string option \<Rightarrow> 'a ParseResult option"
where
  "parse_cba_json_to_result cJSON_Parse nan json_str =
     (case json_str of
        None \<Rightarrow> None
      | Some js \<Rightarrow>
          if validate_cba_json_response cJSON_Parse nan json_str \<noteq> 0 then None
          else (case cJSON_Parse js of
                  None \<Rightarrow> None
                | Some json \<Rightarrow>
                    Some \<lparr>account_number =
                            cJSON_GetStringValue (cJSON_GetObjectItem json ''account_number''),
                          statement_period =
                            cJSON_GetStringValue (cJSON_GetObjectItem json ''statement_period''),
                          transactions =
                            map (json_transaction nan)
                              (array_items (cJSON_GetObjectItem json ''transactions'')),
                          error_message = None\<rparr>))"

text \<open>
  The outside world of \<open>ai_service_parse_pdf\<close>. What the function does to it is a trace
  of events: a call of a provider function, an HTTP request that was performed, a
  \<open>usleep\<close> with its argument in microseconds. What the world answers is a parameter:
  \<open>net k\<close> is the outcome of the HTTP exchange of attempt \<open>k\<close> (a transport error, or a
  status code with the body received, \<open>None\<close> when no byte arrived), and
  \<open>pdf_to_base64\<close> is the result of reading and encoding the file.
\<close>

datatype event = ApiCall string | HttpRequest | Usleep nat

datatype http_reply = TransportError | HttpStatus int "string option"

record AIServiceConfig =
  provider :: string
  model :: string
  api_key :: "string option"
  base_url :: string

text \<open>Each provider function returns its \<open>int\<close> result, the response it stored (if any)
  and the events it caused.\<close>

definition anthropic_call_api ::
  "http_reply \<Rightarrow> string option \<Rightarrow> AIServiceConfig \<Rightarrow> int \<times> string option \<times> event list"
where
  "anthropic_call_api reply pdf_base64 config =
     (if pdf_base64 = None then (- 1, None, [])
      else if api_key config = None then (- 1, None, [])
      else (case reply of
              TransportError \<Rightarrow> (- 1, None, [HttpRequest])
            | HttpStatus http_code body \<Rightarrow>
                if http_code \<ge> 400 then (- 1, None, [HttpRequest])
                else (case body of
                        None \<Rightarrow> (- 1, None, [HttpRequest])
                      | Some memory \<Rightarrow> (0, Some memory, [HttpRequest]))))"

definition openrouter_call_api ::
  "string option \<Rightarrow> AIServiceConfig \<Rightarrow> int \<times> string option \<times> event list"
where
  "openrouter_call_api pdf_base64 config =
     (if pdf_base64 = None then (- 1, None, [])
      else if api_key config = None then (- 1, None, [])
      else (- 1, None, []))"

definition llamacpp_call_api ::
  "string option \<Rightarrow> AIServiceConfig \<Rightarrow> int \<times> string option \<times> event list"
where
  "llamacpp_call_api pdf_base64 config =
     (if pdf_base64 = None then (- 1, None, []) else (- 1, None, []))"

definition max_retries :: nat where
  "max_retries = 3"

text \<open>
  The retry loop, from attempt number \<open>attempt\<close> with the current \<open>result\<close> and the trace
  so far; it returns \<open>result\<close>, \<open>response\<close> and the trace when the loop is left.
  \<open>(int)pow(2, attempt)\<close> is exact for the attempts 0 to 2.
\<close>

function retry_loop ::
  "(nat \<Rightarrow> http_reply) \<Rightarrow> string option \<Rightarrow> AIServiceConfig \<Rightarrow> nat \<Rightarrow> int \<Rightarrow> event list \<Rightarrow>
   int \<times> string option \<times> event list"
where
  "retry_loop net pdf_base64 config attempt result trace =
     (if attempt \<le> max_retries
      then if provider config = ''anthropic'' \<or> provider config = ''openrouter'' \<or>
              provider config = ''llamacpp''
           then (let r = (if provider config = ''anthropic''
                          then anthropic_call_api (net attempt) pdf_base64 config
                          else if provider config = ''openrouter''
                          then openrouter_call_api pdf_base64 config
                          else llamacpp_call_api pdf_base64 config);
                     trace1 = trace @ [ApiCall (provider config)] @ snd (snd r)
                 in if fst r = 0 \<and> fst (snd r) \<noteq> None then (fst r, fst (snd r), trace1)
                    else retry_loop net pdf_base64 config (attempt + 1) (fst r)
                           (if attempt < max_retries
                            then trace1 @ [Usleep (1000000 * 2 ^ attempt)] else trace1))
           else (result, None, trace)
      else (result, None, trace))"
  by pat_completeness auto
termination
  by (relation "measure (\<lambda>(net, pdf_base64, config, attempt, result, trace). 4 - attempt)")
     (auto simp: max_retries_def)

declare retry_loop.simps [simp del]

text \<open>\<open>ai_service_parse_pdf\<close>: the parse result (\<open>None\<close> for NULL) and the trace.\<close>

definition ai_service_parse_pdf ::
  "(string \<Rightarrow> string option) \<Rightarrow> (nat \<Rightarrow> http_reply) \<Rightarrow> (string \<Rightarrow> 'a cJSON option) \<Rightarrow>
   ('a::{zero,ord}) \<Rightarrow> string option \<Rightarrow> AIServiceConfig option \<Rightarrow> 'a ParseResult option \<times> event list"
where
  "ai_service_parse_pdf pdf_to_base64 net cJSON_Parse nan pdf_path config =
     (case pdf_path of
        None \<Rightarrow> (None, [])
      | Some path \<Rightarrow>
          (case config of
             None \<Rightarrow> (None, [])
           | Some cfg \<Rightarrow>
               (case pdf_to_base64 path of
                  None \<Rightarrow> (None, [])
                | Some pdf_base64 \<Rightarrow>
                    (let r = retry_loop net (Some pdf_base64) cfg 0 (- 1) []
                     in if fst r \<noteq> 0 \<or> fst (snd r) = None then (None, snd (snd r))
                        else (parse_cba_json_to_result cJSON_Parse nan (fst (snd r)),
                              snd (snd r))))))"

text \<open>Readings of a trace: the delays slept, in order, and the number of provider calls
  and of HTTP requests.\<close>

fun delays :: "event list \<Rightarrow> nat list" where
  "delays [] = []"
| "delays (Usleep n # es) = n # delays es"
| "delays (e # es) = delays es"

fun api_calls :: "event list \<Rightarrow> nat" where
  "api_calls [] = 0"
| "api_calls (ApiCall p # es) = Suc (api_calls es)"
| "api_calls (e # es) = api_calls es"

fun http_requests :: "event list \<Rightarrow> nat" where
  "http_requests [] = 0"
| "http_requests (HttpRequest # es) = Suc (http_requests es)"
| "http_requests (e # es) = http_requests es"

text \<open>An attempt of the Anthropic provider fails exactly on these outcomes of the exchange:
  a transport error, a status of 400 or more, or no response body.\<close>

definition reply_failed :: "http_reply \<Rightarrow> bool" where
  "reply_failed r =
     (case r of TransportError \<Rightarrow> True | HttpStatus code body \<Rightarrow> code \<ge> 400 \<or> body = None)"

text \<open>The backoff delays still ahead at attempt \<open>a\<close>.\<close>

definition backoff_schedule :: "nat \<Rightarrow> nat list" where
  "backoff_schedule a = map (\<lambda>k. 1000000 * 2 ^ k) [a..<3]"

section \<open>Categorisation engine (categoriser.c, config.h)\<close>

text \<open>
  A rule holds its pattern text, its category name and the compiled PCRE2 program
  (\<open>None\<close> when the pointer is NULL). \<open>load_config\<close> stores a rule only when both strings
  were copied, so they are plain strings here. The PCRE2 engine is outside the repository:
  \<open>pcre2_match\<close> is a parameter giving the return code of a match of a compiled program
  against a subject (non-negative on a match, \<open>-1\<close> for no match, another negative number
  for an engine error).
\<close>

record 'r CategoryRule =
  pattern :: string
  rule_category :: string
  compiled_regex :: "'r option"

record 'r Config =
  default_category :: "string option"
  rules :: "'r CategoryRule list"

text \<open>The \<open>for\<close> loop of \<open>categorise_transaction\<close> over the rule array: the category of the
  first rule with a compiled program whose match code is non-negative.\<close>

fun categorise_rules :: "('r \<Rightarrow> string \<Rightarrow> int) \<Rightarrow> string \<Rightarrow> 'r CategoryRule list \<Rightarrow> string option"
where
  "categorise_rules pcre2_match d [] = None"
| "categorise_rules pcre2_match d (r # rs) =
     (case compiled_regex r of
        None \<Rightarrow> categorise_rules pcre2_match d rs
      | Some re \<Rightarrow>
          if pcre2_match re d \<ge> 0 then Some (rule_category r)
          else categorise_rules pcre2_match d rs)"

definition categorise_transaction ::
  "('r \<Rightarrow> string \<Rightarrow> int) \<Rightarrow> 'a Transaction \<Rightarrow> 'r Config option \<Rightarrow> 'a Transaction"
where
  "categorise_transaction pcre2_match t config =
     (case config of
        None \<Rightarrow> t
      | Some cfg \<Rightarrow>
          if category t \<noteq> None then t
          else (case description t of
                  None \<Rightarrow> t\<lparr>category := safe_strdup (default_category cfg)\<rparr>
                | Some d \<Rightarrow>
                    (case categorise_rules pcre2_match d (rules cfg) of
                       Some c \<Rightarrow> t\<lparr>category := safe_strdup (Some c)\<rparr>
                     | None \<Rightarrow> t\<lparr>category := safe_strdup (default_category cfg)\<rparr>)))"

text \<open>A rule matches a description when it has a compiled program and the engine reports
  a match.\<close>

definition rule_matches :: "('r \<Rightarrow> string \<Rightarrow> int) \<Rightarrow> 'r CategoryRule \<Rightarrow> string \<Rightarrow> bool" where
  "rule_matches pcre2_match r d =
     (case compiled_regex r of None \<Rightarrow> False | Some re \<Rightarrow> pcre2_match re d \<ge> 0)"

text \<open>
  An engine for the examples below: the caseless search for a literal pattern, which is
  what a caseless PCRE2 match does for a pattern without metacharacters.
\<close>

definition caseless_find :: "string \<Rightarrow> string \<Rightarrow> int" where
  "caseless_find pat subject =
     (if strstr (map c_tolower subject) (map c_tolower pat) = None then - 1 else 0)"

section \<open>Properties of the CBA parser\<close>

subsection \<open>The first scenario of the specification\<close>

lemmas scan_defs = sscanf_d_s9_def scan_d_def scan_s_def scan_lit_def c_isspace_def c_isdigit_def
  digits_val_def digit_val_def strtol_value_def int_of_long_def

lemma cba_salary_date:
  "parse_cba_date (Some (snprintf 20 (printf_d 30 @ '' '' @ ''May'')))
     (Some ''1 May 2025 - 31 Oct 2025'') = Some ''2025-05-30''"
proof -
  have a: "snprintf 20 (printf_d 30 @ '' '' @ ''May'') = ''30 May''"
    by (simp add: snprintf_def printf_d_def show_nat.simps)
  have b: "sscanf_d_s9 ''30 May'' = Some (30, ''May'')"
    by (simp add: scan_defs)
  have c: "period_years (Some ''1 May 2025 - 31 Oct 2025'') = (2025, 2025)"
    by (simp add: period_years_def scan_end_year_def scan_defs)
  have d: "month_loop ''May'' months 0 = 5"
    by (simp add: months_def strcasecmp_eq_def c_tolower_def)
  have e: "format_iso_date 2025 5 30 = ''2025-05-30''"
    by (simp add: format_iso_date_def snprintf_def printf_0d_def show_nat.simps)
  show ?thesis
    unfolding parse_cba_date_def a by (simp add: b c d e)
qed

text \<open>
  The line of the specification's first scenario, traced through
  \<open>process_cba_transaction_line\<close>: the backward scan for the debit starts right after the
  first amount and runs over its digits up to the dollar sign, so \<open>5,000.00\<close> becomes the
  debit; the credit block is then left with the text \<open>$\<close> alone, which does not parse.
\<close>

lemma cba_salary_line:
  "process_cba_transaction_line scan_lf_decimal
     ''30 May Salary ACME CORPORATION $5,000.00 $5,000.00 CR''
     (create_parse_result\<lparr>statement_period := Some ''1 May 2025 - 31 Oct 2025''\<rparr>)
   = \<lparr>account_number = None, statement_period = Some ''1 May 2025 - 31 Oct 2025'',
      transactions = [\<lparr>date = Some ''2025-05-30'', description = Some ''Salary ACME CORPORATION'',
                       debit = 5000, credit = 0, category = None\<rparr>],
      error_message = None\<rparr>"
proof -
  let ?line = "''30 May Salary ACME CORPORATION $5,000.00 $5,000.00 CR''"
  have s1: "sscanf_d_s9 ?line = Some (30, ''May'')"
    by (simp add: scan_defs)
  have s3: "skip_fields 2 ?line 0 = 7"
    by (simp add: eval_nat_numeral skip_while_def c_isspace_def)
  have s4: "strstr ?line '' CR'' = Some 50"
    by simp
  have s5: "back_at_while (\<lambda>c. c \<noteq> CHR ''$'') ?line 50 = 41"
    by (simp add: eval_nat_numeral peek_def)
  have s6: "back_while c_isspace ?line 7 41 = 40"
    by (simp add: eval_nat_numeral peek_def c_isspace_def)
  have s7: "strstr ?line '' ('' = None"
    by simp
  have s8a: "back_while cba_is_amount_char ?line 7 40 = 32"
    by (simp add: eval_nat_numeral peek_def cba_is_amount_char_def c_isdigit_def)
  have s8b: "parse_cba_amount scan_lf_decimal ''5,000.00'' = Some (0, 5000)"
    by (simp add: parse_cba_amount_def trim_trailing_def scan_lf_decimal_def c_isspace_def
        c_isdigit_def digits_val_def digit_val_def)
  have s8c: "back_while c_isspace ?line 7 32 = 32"
    by (simp add: eval_nat_numeral peek_def c_isspace_def)
  have s8: "cba_scan_debit scan_lf_decimal ?line 7 40 40 0 = (5000, 32)"
    unfolding cba_scan_debit_def s8a
    by (simp add: s8b s8c substr_def peek_def c_isdigit_def)
  have s9: "cba_last_credit ?line 32 7 None = Some 31"
    by (simp add: cba_last_credit.simps strchr_def peek_def c_isdigit_def)
  have s10a: "parse_cba_amount scan_lf_decimal ''$'' = (None :: (rat \<times> rat) option)"
    by (simp add: parse_cba_amount_def trim_trailing_def)
  have s10b: "back_while c_isspace ?line 7 31 = 30"
    by (simp add: eval_nat_numeral peek_def c_isspace_def)
  have s10: "cba_scan_credit scan_lf_decimal ?line 7 (Some 31) 32 0 = (0, 30)"
    unfolding cba_scan_credit_def
    by (simp add: s10a s10b substr_def)
  have s11: "trim_trailing (substr ?line 7 23) = ''Salary ACME CORPORATION''"
    by (simp add: trim_trailing_def substr_def c_isspace_def)
  show ?thesis
    unfolding process_cba_transaction_line_def s1
    by (simp del: strstr.simps back_while.simps back_at_while.simps skip_fields.simps
        add: create_parse_result_def cba_salary_date [simplified] s3 s4 s5 s6 s7 s8 s9 s10 s11
          add_transaction_to_result_def safe_strdup_def)
qed

text \<open>
  C1. The statement with the period \<open>1 May 2025 - 31 Oct 2025\<close> and the line
  \<open>30 May Salary ACME CORPORATION $5,000.00 $5,000.00 CR\<close> yields exactly one transaction,
  dated 2025-05-30 and described as \<open>Salary ACME CORPORATION\<close>, as the specification
  says. Its amount 5000.00, however, is stored as the debit and its credit is 0, where the
  specification has credit 5000.00 and debit 0, and where the comments of the code take
  an amount with a dollar sign for a credit.
\<close>

theorem cba_dollar_amount_taken_as_debit:
  "parse_cba_statement scan_lf_decimal
     (Some (''Statement Period: 1 May 2025 - 31 Oct 2025'' @ [CHR 0x0A] @
            ''30 May Salary ACME CORPORATION $5,000.00 $5,000.00 CR'' @ [CHR 0x0A]))
   = Some \<lparr>account_number = None, statement_period = Some ''1 May 2025 - 31 Oct 2025'',
      transactions = [\<lparr>date = Some ''2025-05-30'', description = Some ''Salary ACME CORPORATION'',
                       debit = 5000, credit = 0, category = None\<rparr>],
      error_message = None\<rparr>"
proof -
  let ?c = "''Statement Period: 1 May 2025 - 31 Oct 2025'' @ [CHR 0x0A] @
            ''30 May Salary ACME CORPORATION $5,000.00 $5,000.00 CR'' @ [CHR 0x0A]"
  let ?l1 = "''Statement Period: 1 May 2025 - 31 Oct 2025''"
  let ?l2 = "''30 May Salary ACME CORPORATION $5,000.00 $5,000.00 CR''"
  have t1: "extract_account_number ?c = None"
    by (simp add: extract_account_number_def)
  have t2: "extract_statement_period ?c = Some ''1 May 2025 - 31 Oct 2025''"
    by (simp add: extract_statement_period_def skip_while_def c_isspace_def substr_def
        trim_trailing_def)
  have t3: "strtok_lines ?c = [?l1, ?l2]"
    by (simp add: strtok_lines_def is_line_delim_def)
  have t4: "cba_is_start ?l1 = False"
    by (simp add: cba_is_start_def scan_defs)
  have t5: "cba_is_start ?l2 = True"
    by (simp add: cba_is_start_def scan_defs)
  have t6: "dropWhile c_isspace ?l1 = ?l1" "dropWhile c_isspace ?l2 = ?l2"
    by (simp_all add: c_isspace_def)
  have t7: "cba_lines scan_lf_decimal [?l1, ?l2] None r = (Some ?l2, r)" for r :: "rat ParseResult"
    by (simp add: t4 t5 t6 cba_flush_def del: dropWhile.simps)
  show ?thesis
    unfolding parse_cba_statement_def
    by (simp add: t1 [simplified] t2 [simplified] t3 [simplified] t7 cba_flush_def
        cba_salary_line [unfolded create_parse_result_def, simplified]
        create_parse_result_def del: cba_lines.simps)
qed

subsection \<open>Year resolution\<close>


























subsection \<open>Lines without the CR suffix\<close>


lemma process_cba_frame:
  "error_message (process_cba_transaction_line lf line result) = error_message result"
  "account_number (process_cba_transaction_line lf line result) = account_number result"
  "statement_period (process_cba_transaction_line lf line result) = statement_period result"
  by (simp_all add: process_cba_transaction_line_def Let_def add_transaction_to_result_def
      split: option.splits prod.splits)

lemma foldl_cba_flush:
  "foldl (\<lambda>res t. process_cba_transaction_line lf t res) r
     ((case pending of None \<Rightarrow> [] | Some t \<Rightarrow> [t]) @ ts) =
   foldl (\<lambda>res t. process_cba_transaction_line lf t res) (cba_flush lf pending r) ts"
  by (cases pending) (simp_all add: cba_flush_def)

lemma cba_lines_accumulated:
  "cba_flush lf (fst (cba_lines lf ls pending r)) (snd (cba_lines lf ls pending r)) =
   foldl (\<lambda>res t. process_cba_transaction_line lf t res) r (cba_accumulated_lines ls pending)"
proof (induction ls arbitrary: pending r)
  case Nil
  show ?case by (simp add: cba_flush_def split: option.splits)
next
  case (Cons l ls)
  let ?line = "dropWhile c_isspace l"
  let ?f = "\<lambda>res t. process_cba_transaction_line lf t res"
  show ?case
  proof (cases "?line = []")
    case True
    have L: "cba_lines lf (l # ls) pending r = cba_lines lf ls pending r"
      and A: "cba_accumulated_lines (l # ls) pending = cba_accumulated_lines ls pending"
      using True by (simp_all add: Let_def)
    show ?thesis unfolding L A by (rule Cons.IH)
  next
    case False
    show ?thesis
    proof (cases "cba_is_start ?line")
      case True
      have L: "cba_lines lf (l # ls) pending r =
               cba_lines lf ls (Some ?line) (cba_flush lf pending r)"
        and A: "cba_accumulated_lines (l # ls) pending =
               (case pending of None \<Rightarrow> [] | Some t \<Rightarrow> [t]) @
               cba_accumulated_lines ls (Some ?line)"
        using False True by (auto simp: Let_def)
      show ?thesis unfolding L A foldl_cba_flush by (rule Cons.IH)
    next
      case no_start: False
      show ?thesis
      proof (cases pending)
        case None
        have L: "cba_lines lf (l # ls) pending r = cba_lines lf ls None r"
          and A: "cba_accumulated_lines (l # ls) pending = cba_accumulated_lines ls None"
          using False no_start None by (auto simp: Let_def)
        show ?thesis unfolding L A using Cons.IH [of None r] None by simp
      next
        case (Some t)
        have L: "cba_lines lf (l # ls) pending r =
                 cba_lines lf ls (Some (t @ '' '' @ ?line)) r"
          and A: "cba_accumulated_lines (l # ls) pending =
                 cba_accumulated_lines ls (Some (t @ '' '' @ ?line))"
          using False no_start Some by (auto simp: Let_def)
        show ?thesis unfolding L A using Cons.IH [of "Some (t @ '' '' @ ?line)" r] Some by simp
      qed
    qed
  qed
qed

lemma parse_cba_statement_fold:
  "parse_cba_statement lf (Some c) =
   Some (foldl (\<lambda>res t. process_cba_transaction_line lf t res)
           (create_parse_result\<lparr>account_number := extract_account_number c,
                                 statement_period := extract_statement_period c\<rparr>)
           (cba_accumulated_lines (strtok_lines c) None))"
  by (simp add: parse_cba_statement_def Let_def cba_lines_accumulated)

lemma foldl_process_cba_error:
  "error_message (foldl (\<lambda>res t. process_cba_transaction_line lf t res) r ts) = error_message r"
  by (induction ts arbitrary: r) (simp_all add: process_cba_frame)


lemma cba_accumulated_no_start:
  "list_all (\<lambda>l. \<not> cba_is_start (dropWhile c_isspace l)) ls \<Longrightarrow>
   cba_accumulated_lines ls None = []"
  by (induction ls) (simp_all add: Let_def)






section \<open>Properties of the ANZ parser\<close>




















section \<open>Both parsers: failure only on NULL\<close>

lemma process_anz_frame:
  "error_message (process_anz_transaction_line lf b line result) = error_message result"
  by (simp add: process_anz_transaction_line_def Let_def add_transaction_to_result_def
      split: option.splits prod.splits)

lemma anz_lines_error:
  "error_message (anz_lines lf toks r) = error_message r"
  by (induction lf toks r rule: anz_lines.induct) (simp_all add: process_anz_frame)

lemma anz_lines_no_transaction_line:
  "list_all (\<lambda>l. \<not> is_anz_transaction_line l) (map snd toks) \<Longrightarrow> anz_lines lf toks r = r"
  by (induction lf toks r rule: anz_lines.induct) simp_all

lemma strtok_scan_lines:
  "map snd (strtok_scan b cur c) = map snd (strtok_scan b' cur c)"
proof (induction c arbitrary: b b' cur)
  case Nil
  show ?case by (cases cur) simp_all
next
  case (Cons x xs)
  show ?case
  proof (cases cur)
    case None
    show ?thesis
    proof (cases "is_line_delim x")
      case True
      with None show ?thesis by simp
    next
      case False
      with None show ?thesis using Cons.IH [of b "Some [x]" b'] by simp
    qed
  next
    case (Some t)
    show ?thesis
    proof (cases "is_line_delim x")
      case True
      with Some show ?thesis by simp
    next
      case False
      with Some show ?thesis using Cons.IH [of b "Some (t @ [x])" b'] by simp
    qed
  qed
qed

text \<open>
  C6. Each text parser returns NULL exactly for NULL content. For any other content it
  returns a result without an error message; the result has no transaction for the empty
  text and for any text none of whose lines is recognised as a transaction line. Memory
  allocation is taken to succeed, as everywhere in the model.
\<close>

theorem parsers_fail_only_on_null:
  "(parse_cba_statement lf content = None) = (content = None) \<and>
   (parse_anz_statement lf b content = None) = (content = None) \<and>
   map_option error_message (parse_cba_statement lf (Some c)) = Some None \<and>
   map_option error_message (parse_anz_statement lf b (Some c)) = Some None \<and>
   map_option transactions (parse_cba_statement lf (Some [])) = Some [] \<and>
   map_option transactions (parse_anz_statement lf b (Some [])) = Some [] \<and>
   (list_all (\<lambda>l. \<not> cba_is_start (dropWhile c_isspace l)) (strtok_lines c) \<longrightarrow>
    map_option transactions (parse_cba_statement lf (Some c)) = Some []) \<and>
   (list_all (\<lambda>l. \<not> is_anz_transaction_line l) (strtok_lines c) \<longrightarrow>
    map_option transactions (parse_anz_statement lf b (Some c)) = Some [])"
proof -
  have 1: "(parse_cba_statement lf content = None) = (content = None)"
    by (cases content) (simp_all add: parse_cba_statement_def Let_def)
  have 2: "(parse_anz_statement lf b content = None) = (content = None)"
    by (cases content) (simp_all add: parse_anz_statement_def)
  have 3: "map_option error_message (parse_cba_statement lf (Some c)) = Some None"
    by (simp add: parse_cba_statement_fold foldl_process_cba_error create_parse_result_def)
  have 4: "map_option error_message (parse_anz_statement lf b (Some c)) = Some None"
    by (simp add: parse_anz_statement_def anz_lines_error create_parse_result_def)
  have 5: "map_option transactions (parse_cba_statement lf (Some [])) = Some []"
    by (simp add: parse_cba_statement_fold strtok_lines_def create_parse_result_def)
  have 6: "map_option transactions (parse_anz_statement lf b (Some [])) = Some []"
    by (simp add: parse_anz_statement_def create_parse_result_def)
  have 7: "map_option transactions (parse_cba_statement lf (Some c)) = Some []"
    if "list_all (\<lambda>l. \<not> cba_is_start (dropWhile c_isspace l)) (strtok_lines c)"
    using cba_accumulated_no_start [OF that]
    by (simp add: parse_cba_statement_fold create_parse_result_def)
  have 8: "map_option transactions (parse_anz_statement lf b (Some c)) = Some []"
    if "list_all (\<lambda>l. \<not> is_anz_transaction_line l) (strtok_lines c)"
  proof -
    from that have "list_all (\<lambda>l. \<not> is_anz_transaction_line l) (map snd (strtok_scan b None c))"
      unfolding strtok_lines_def by (simp only: strtok_scan_lines [of b None c "CHR 0x00"])
    then show ?thesis
      by (simp add: parse_anz_statement_def anz_lines_no_transaction_line create_parse_result_def)
  qed
  from 1 2 3 4 5 6 7 8 show ?thesis by blast
qed

theorem parsers_fail_only_on_null_witness:
  "list_all (\<lambda>l. \<not> cba_is_start (dropWhile c_isspace l))
     (strtok_lines (''Transaction Details'' @ [CHR 0x0A] @ ''No activity in 2025'' @ [CHR 0x0A])) \<and>
   list_all (\<lambda>l. \<not> is_anz_transaction_line l)
     (strtok_lines (''Transaction Details'' @ [CHR 0x0A] @ ''No activity in 2025'' @ [CHR 0x0A])) \<and>
   map_option transactions
     (parse_cba_statement scan_lf_decimal
        (Some (''Transaction Details'' @ [CHR 0x0A] @ ''No activity in 2025'' @ [CHR 0x0A]))) =
     Some [] \<and>
   map_option transactions
     (parse_anz_statement scan_lf_decimal (CHR 0x00)
        (Some (''Transaction Details'' @ [CHR 0x0A] @ ''No activity in 2025'' @ [CHR 0x0A]))) =
     Some [] \<and>
   parse_cba_statement scan_lf_decimal None = None \<and>
   parse_anz_statement scan_lf_decimal (CHR 0x00) None = None"
proof -
  let ?l1 = "''Transaction Details''"
  let ?l2 = "''No activity in 2025''"
  let ?c = "?l1 @ [CHR 0x0A] @ ?l2 @ [CHR 0x0A]"
  have t: "strtok_lines ?c = [?l1, ?l2]"
    by (simp add: strtok_lines_def is_line_delim_def)
  have w: "dropWhile c_isspace ?l1 = ?l1" "dropWhile c_isspace ?l2 = ?l2"
    by (simp_all add: c_isspace_def)
  have a: "cba_is_start ?l1 = False" "cba_is_start ?l2 = False"
    by (simp_all add: cba_is_start_def scan_defs)
  have b: "is_anz_transaction_line ?l1 = False" "is_anz_transaction_line ?l2 = False"
    unfolding is_anz_transaction_line_def w
    by (simp_all add: sscanf_d_d_d_def scan_defs)
  have h1: "list_all (\<lambda>l. \<not> cba_is_start (dropWhile c_isspace l)) (strtok_lines ?c)"
    unfolding t by (simp add: w a del: dropWhile.simps)
  have h2: "list_all (\<lambda>l. \<not> is_anz_transaction_line l) (strtok_lines ?c)"
    unfolding t by (simp add: b)
  show ?thesis
    using parsers_fail_only_on_null [of scan_lf_decimal None "CHR 0x00" ?c] h1 h2
    by simp
qed

section \<open>Properties of the AI service\<close>

text \<open>
  C3. The validation does not reject a debit (or credit) that is neither null nor a
  number: the two amount checks only fire for numbers. The response below, whose single
  transaction has the string \<open>abc\<close> as its debit, is accepted, and the conversion stores
  NaN as the debit of the transaction.
\<close>

theorem validate_accepts_string_debit:
  "validate_cba_json_response
     (\<lambda>s. Some (cJSON_Object
        [(''account_number'', cJSON_String ''06 4144 10181166''),
         (''statement_period'', cJSON_String ''1 May 2025 - 31 Oct 2025''),
         (''transactions'', cJSON_Array
            [cJSON_Object
               [(''date'', cJSON_String ''2025-06-30''),
                (''description'', cJSON_String ''Salary ACME CORPORATION''),
                (''debit'', cJSON_String ''abc''),
                (''credit'', cJSON_Null),
                (''balance'', cJSON_Number 5000)]])]))
     (nan :: rat) (Some js) = 0 \<and>
   parse_cba_json_to_result
     (\<lambda>s. Some (cJSON_Object
        [(''account_number'', cJSON_String ''06 4144 10181166''),
         (''statement_period'', cJSON_String ''1 May 2025 - 31 Oct 2025''),
         (''transactions'', cJSON_Array
            [cJSON_Object
               [(''date'', cJSON_String ''2025-06-30''),
                (''description'', cJSON_String ''Salary ACME CORPORATION''),
                (''debit'', cJSON_String ''abc''),
                (''credit'', cJSON_Null),
                (''balance'', cJSON_Number 5000)]])]))
     (nan :: rat) (Some js) =
   Some \<lparr>account_number = Some ''06 4144 10181166'',
          statement_period = Some ''1 May 2025 - 31 Oct 2025'',
          transactions = [\<lparr>date = Some ''2025-06-30'',
                           description = Some ''Salary ACME CORPORATION'',
                           debit = nan, credit = 0, category = None\<rparr>],
          error_message = None\<rparr>"
  by (simp add: validate_cba_json_response_def parse_cba_json_to_result_def
      cJSON_GetObjectItem_def strcasecmp_eq_def
      cJSON_IsString_def cJSON_IsArray_def array_items_def transaction_rejected_def
      cJSON_IsNumber_def is_valid_iso_date_def c_isdigit_def cJSON_GetStringValue_def
      is_valid_amount_def cJSON_GetNumberValue_def json_transaction_def cJSON_IsNull_def)

lemma delays_append: "delays (xs @ ys) = delays xs @ delays ys"
  by (induction xs rule: delays.induct) simp_all

lemma api_calls_append: "api_calls (xs @ ys) = api_calls xs + api_calls ys"
  by (induction xs rule: api_calls.induct) simp_all

lemma provider_events:
  "api_calls (snd (snd (anthropic_call_api rep b cfg))) = 0"
  "delays (snd (snd (anthropic_call_api rep b cfg))) = []"
  "api_calls (snd (snd (openrouter_call_api b cfg))) = 0"
  "delays (snd (snd (openrouter_call_api b cfg))) = []"
  "api_calls (snd (snd (llamacpp_call_api b cfg))) = 0"
  "delays (snd (snd (llamacpp_call_api b cfg))) = []"
  by (auto simp: anthropic_call_api_def openrouter_call_api_def llamacpp_call_api_def
      split: http_reply.splits option.splits)

lemma backoff_schedule_unfold:
  "a < 3 \<Longrightarrow> backoff_schedule a = 1000000 * 2 ^ a # backoff_schedule (Suc a)"
  "3 \<le> a \<Longrightarrow> backoff_schedule a = []"
  by (simp_all add: backoff_schedule_def upt_conv_Cons)

lemma retry_loop_trace:
  "\<exists>ext. snd (snd (retry_loop net b cfg a res tr)) = tr @ ext \<and>
         api_calls ext \<le> 4 - a \<and>
         delays ext = take (api_calls ext - 1) (backoff_schedule a) \<and>
         (if a \<le> 3 \<and> (provider cfg = ''anthropic'' \<or> provider cfg = ''openrouter'' \<or>
              provider cfg = ''llamacpp'') then 1 \<le> api_calls ext else ext = [])"
proof (induction net b cfg a res tr rule: retry_loop.induct)
  case (1 net b cfg a res tr)
  let ?known = "provider cfg = ''anthropic'' \<or> provider cfg = ''openrouter'' \<or>
              provider cfg = ''llamacpp''"
  show ?case
  proof (cases "a \<le> 3 \<and> ?known")
    case False
    then have "retry_loop net b cfg a res tr = (res, None, tr)"
      by (subst retry_loop.simps) (auto simp: max_retries_def)
    with False show ?thesis by auto
  next
    case True
    define r where "r = (if provider cfg = ''anthropic''
                          then anthropic_call_api (net a) b cfg
                          else if provider cfg = ''openrouter''
                          then openrouter_call_api b cfg
                          else llamacpp_call_api b cfg)"
    define trace1 where "trace1 = tr @ [ApiCall (provider cfg)] @ snd (snd r)"
    define tr2 where "tr2 = (if a < max_retries then trace1 @ [Usleep (1000000 * 2 ^ a)] else trace1)"
    have A: "a \<le> max_retries" and K: ?known
      using True by (auto simp: max_retries_def)
    note step = retry_loop.simps [of net b cfg a res tr, unfolded Let_def if_P [OF A] if_P [OF K],
        folded r_def, folded trace1_def, folded tr2_def]
    have ev: "api_calls (snd (snd r)) = 0" "delays (snd (snd r)) = []"
      by (simp_all add: r_def provider_events)
    show ?thesis
    proof (cases "fst r = 0 \<and> fst (snd r) \<noteq> None")
      case ok: True
      have "retry_loop net b cfg a res tr = (fst r, fst (snd r), trace1)"
        by (rule step [unfolded if_P [OF ok]])
      moreover have "Suc 0 \<le> 4 - a" using True by arith
      ultimately show ?thesis
        using True by (simp add: trace1_def api_calls_append delays_append ev)
    next
      case fail: False
      have eq: "retry_loop net b cfg a res tr = retry_loop net b cfg (a + 1) (fst r) tr2"
        by (rule step [unfolded if_not_P [OF fail]])
      have "\<exists>ext. snd (snd (retry_loop net b cfg (a + 1) (fst r) tr2)) = tr2 @ ext \<and>
         api_calls ext \<le> 4 - (a + 1) \<and>
         delays ext = take (api_calls ext - 1) (backoff_schedule (a + 1)) \<and>
         (if a + 1 \<le> 3 \<and> ?known then 1 \<le> api_calls ext else ext = [])"
        using True fail
        by (intro "1.IH" [OF _ _ r_def trace1_def, folded tr2_def]) (auto simp: max_retries_def)
      then obtain ext where ext: "snd (snd (retry_loop net b cfg (a + 1) (fst r) tr2)) = tr2 @ ext"
         "api_calls ext \<le> 4 - (a + 1)"
         "delays ext = take (api_calls ext - 1) (backoff_schedule (a + 1))"
         "if a + 1 \<le> 3 \<and> ?known then 1 \<le> api_calls ext else ext = []"
        by blast
      show ?thesis
      proof (cases "a < 3")
        case lt: True
        let ?e = "[ApiCall (provider cfg)] @ snd (snd r) @ [Usleep (1000000 * 2 ^ a)] @ ext"
        have "tr2 = tr @ [ApiCall (provider cfg)] @ snd (snd r) @ [Usleep (1000000 * 2 ^ a)]"
          using lt by (simp add: tr2_def trace1_def max_retries_def)
        then have 1: "snd (snd (retry_loop net b cfg a res tr)) = tr @ ?e"
          unfolding eq ext(1) by simp
        have 2: "1 \<le> api_calls ext" using ext(4) lt True by simp
        have 3: "api_calls ?e = Suc (api_calls ext)"
          by (simp add: api_calls_append ev)
        have 4: "delays ?e = 1000000 * 2 ^ a # delays ext"
          by (simp add: delays_append ev)
        have 5: "delays ?e = take (api_calls ?e - 1) (backoff_schedule a)"
          using 2 lt unfolding 3 4 ext(3) backoff_schedule_unfold(1) [OF lt]
          by (cases "api_calls ext") simp_all
        show ?thesis
          using 1 2 3 5 ext(2) True by (intro exI [of _ ?e]) simp
      next
        case ge: False
        then have a3: "a = 3" using True by simp
        have "ext = []" using ext(4) a3 by simp
        moreover have "tr2 = tr @ [ApiCall (provider cfg)] @ snd (snd r)"
          using a3 by (simp add: tr2_def trace1_def max_retries_def)
        ultimately have 1: "snd (snd (retry_loop net b cfg a res tr)) = tr @ [ApiCall (provider cfg)] @ snd (snd r)"
          unfolding eq ext(1) by simp
        have "Suc 0 \<le> 4 - a" using True by arith
        then show ?thesis
          using True 1 by (intro exI [of _ "[ApiCall (provider cfg)] @ snd (snd r)"])
            (simp add: api_calls_append delays_append ev)
      qed
    qed
  qed
qed


lemma retry_loop_trace0:
  "api_calls (snd (snd (retry_loop net b cfg 0 res []))) \<le> 4 \<and>
   delays (snd (snd (retry_loop net b cfg 0 res []))) =
     take (api_calls (snd (snd (retry_loop net b cfg 0 res []))) - 1)
       [1000000, 2000000, 4000000]"
proof -
  have "backoff_schedule 0 = [1000000, 2000000, 4000000]"
    by (simp add: backoff_schedule_def upt_conv_Cons)
  with retry_loop_trace [of net b cfg 0 res "[]"] show ?thesis
    by auto
qed

lemma provider_stub_fails:
  "openrouter_call_api b cfg = (- 1, None, [])" "llamacpp_call_api b cfg = (- 1, None, [])"
  by (simp_all add: openrouter_call_api_def llamacpp_call_api_def)

lemmas retry_loop_unroll =
  retry_loop.simps [of _ _ _ 0] retry_loop.simps [of _ _ _ "Suc 0"] retry_loop.simps [of _ _ _ 1]
  retry_loop.simps [of _ _ _ "Suc (Suc 0)"] retry_loop.simps [of _ _ _ "Suc (Suc (Suc 0))"]
  retry_loop.simps [of _ _ _ "Suc (Suc (Suc (Suc 0)))"]

lemma retry_loop_unsupported:
  assumes "provider cfg = ''openrouter'' \<or> provider cfg = ''llamacpp''"
  shows "retry_loop net b cfg 0 res [] =
    (- 1, None, [ApiCall (provider cfg), Usleep 1000000, ApiCall (provider cfg), Usleep 2000000,
                 ApiCall (provider cfg), Usleep 4000000, ApiCall (provider cfg)])"
  using assms by (auto simp: retry_loop_unroll provider_stub_fails max_retries_def)

lemma anthropic_fails:
  "api_key cfg \<noteq> None \<Longrightarrow> reply_failed rep \<Longrightarrow>
   anthropic_call_api rep (Some b) cfg = (- 1, None, [HttpRequest])"
  by (auto simp: anthropic_call_api_def reply_failed_def split: http_reply.splits option.splits)

lemma anthropic_succeeds:
  "api_key cfg \<noteq> None \<Longrightarrow> code < 400 \<Longrightarrow>
   anthropic_call_api (HttpStatus code (Some body)) (Some b) cfg = (0, Some body, [HttpRequest])"
  by (simp add: anthropic_call_api_def)

lemma retry_loop_third_attempt:
  assumes "provider cfg = ''anthropic''" "api_key cfg \<noteq> None"
    "reply_failed (net 0)" "reply_failed (net 1)" "net 2 = HttpStatus code (Some body)" "code < 400"
  shows "retry_loop net (Some b) cfg 0 res [] =
    (0, Some body, [ApiCall ''anthropic'', HttpRequest, Usleep 1000000,
                    ApiCall ''anthropic'', HttpRequest, Usleep 2000000,
                    ApiCall ''anthropic'', HttpRequest])"
proof -
  have 1: "anthropic_call_api (net (Suc 0)) (Some b) cfg = (- 1, None, [HttpRequest])"
    using anthropic_fails [OF assms(2,4), of b] by simp
  have 2: "anthropic_call_api (net (Suc (Suc 0))) (Some b) cfg = (0, Some body, [HttpRequest])"
    using anthropic_succeeds [OF assms(2,6), of body b] assms(5) by (simp add: numeral_2_eq_2)
  show ?thesis
    using assms(1) anthropic_fails [OF assms(2,3), of b] 1 2
    by (simp add: retry_loop_unroll max_retries_def)
qed

text \<open>
  C4. For the providers \<open>openrouter\<close> and \<open>llamacpp\<close> the extraction returns NULL and
  never performs an HTTP request. It does not fail at once, though: once the PDF has been
  read, the retry loop calls the provider function four times and sleeps 1, 2 and 4
  seconds between the calls, although these functions can only fail. The loop is left at
  once only for a provider name that is none of the three.
\<close>

theorem unsupported_provider_fails_after_backoff:
  assumes "provider cfg = ''openrouter'' \<or> provider cfg = ''llamacpp''"
  shows "ai_service_parse_pdf read_pdf net parse nan path (Some cfg) =
    (None,
     case path of
       None \<Rightarrow> []
     | Some p \<Rightarrow>
         (case read_pdf p of
            None \<Rightarrow> []
          | Some b \<Rightarrow> [ApiCall (provider cfg), Usleep 1000000, ApiCall (provider cfg),
                       Usleep 2000000, ApiCall (provider cfg), Usleep 4000000,
                       ApiCall (provider cfg)]))"
  by (simp add: ai_service_parse_pdf_def retry_loop_unsupported [OF assms] split: option.splits)

theorem unsupported_provider_fails_after_backoff_witness:
  "(provider \<lparr>provider = ''openrouter'', model = ''m'', api_key = Some ''key'', base_url = ''https://openrouter.ai''\<rparr> = ''openrouter'' \<or>
    provider \<lparr>provider = ''openrouter'', model = ''m'', api_key = Some ''key'', base_url = ''https://openrouter.ai''\<rparr> = ''llamacpp'') \<and>
   ai_service_parse_pdf (\<lambda>p. Some ''JVBERi0='') (\<lambda>k. HttpStatus 200 (Some ''{}'')) (\<lambda>s. None) (0 :: rat)
     (Some ''/tmp/cba_statement_1.pdf'')
     (Some \<lparr>provider = ''openrouter'', model = ''m'', api_key = Some ''key'', base_url = ''https://openrouter.ai''\<rparr>)
   = (None, [ApiCall ''openrouter'', Usleep 1000000, ApiCall ''openrouter'', Usleep 2000000,
             ApiCall ''openrouter'', Usleep 4000000, ApiCall ''openrouter''])"
  using unsupported_provider_fails_after_backoff
    [where cfg = "\<lparr>provider = ''openrouter'', model = ''m'', api_key = Some ''key'', base_url = ''https://openrouter.ai''\<rparr>"
       and read_pdf = "\<lambda>p. Some ''JVBERi0=''" and net = "\<lambda>k. HttpStatus 200 (Some ''{}'')"
       and parse = "\<lambda>s. None" and nan = "0 :: rat" and path = "Some ''/tmp/cba_statement_1.pdf''"]
  by simp

lemma retry_loop_anthropic_success:
  assumes "provider cfg = ''anthropic''" and "api_key cfg \<noteq> None" and "k \<le> 3"
    and "\<forall>i<k. reply_failed (net i)"
    and "net k = HttpStatus status (Some reply)" and "status < 400"
  shows "retry_loop net (Some b) cfg 0 res [] =
    (0, Some reply,
     concat (map (\<lambda>i. [ApiCall ''anthropic'', HttpRequest, Usleep (1000000 * 2 ^ i)]) [0..<k]) @
     [ApiCall ''anthropic'', HttpRequest])"
proof -
  have F: "anthropic_call_api (net i) (Some b) cfg = (- 1, None, [HttpRequest])" if "i < k" for i
    using assms(4) that by (intro anthropic_fails [OF assms(2)]) simp
  have S: "anthropic_call_api (net k) (Some b) cfg = (0, Some reply, [HttpRequest])"
    unfolding assms(5) using assms(2,6) by (rule anthropic_succeeds)
  from assms(3) have "k = 0 \<or> k = Suc 0 \<or> k = Suc (Suc 0) \<or> k = Suc (Suc (Suc 0))"
    by arith
  then show ?thesis
  proof (elim disjE)
    assume k: "k = 0"
    show ?thesis
      using assms(1) S unfolding k
      by (simp add: retry_loop_unroll max_retries_def)
  next
    assume k: "k = Suc 0"
    show ?thesis
      using assms(1) S F [of 0] unfolding k
      by (simp add: retry_loop_unroll max_retries_def)
  next
    assume k: "k = Suc (Suc 0)"
    show ?thesis
      using assms(1) S F [of 0] F [of "Suc 0"] unfolding k
      by (simp add: retry_loop_unroll max_retries_def)
  next
    assume k: "k = Suc (Suc (Suc 0))"
    show ?thesis
      using assms(1) S F [of 0] F [of "Suc 0"] F [of "Suc (Suc 0)"] unfolding k
      by (simp add: retry_loop_unroll max_retries_def)
  qed
qed

lemma retry_loop_anthropic_exhausted:
  assumes "provider cfg = ''anthropic''" and "api_key cfg \<noteq> None"
    and "\<forall>i<4. reply_failed (net i)"
  shows "retry_loop net (Some b) cfg 0 res [] =
    (- 1, None,
     [ApiCall ''anthropic'', HttpRequest, Usleep 1000000,
      ApiCall ''anthropic'', HttpRequest, Usleep 2000000,
      ApiCall ''anthropic'', HttpRequest, Usleep 4000000,
      ApiCall ''anthropic'', HttpRequest])"
proof -
  have F: "anthropic_call_api (net i) (Some b) cfg = (- 1, None, [HttpRequest])" if "i < 4" for i
    using assms(3) that by (intro anthropic_fails [OF assms(2)]) simp
  show ?thesis
    using assms(1) F [of 0] F [of "Suc 0"] F [of "Suc (Suc 0)"] F [of "Suc (Suc (Suc 0))"]
    by (simp add: retry_loop_unroll max_retries_def)
qed

text \<open>
  C5. The extractor calls the provider at most 4 times, and the delays it sleeps are the
  first \<open>n - 1\<close> of 1, 2 and 4 seconds when it makes \<open>n\<close> calls. On the Anthropic path,
  with a credential and a readable PDF: when the exchanges of the attempts before attempt
  \<open>k\<close> fail and that of attempt \<open>k\<close> (0 to 3) delivers a body with a status below 400,
  the trace is one call and one request per attempt with the delay of \<open>2 ^ i\<close> seconds
  after failed attempt \<open>i\<close>, nothing after the last, and the result is the conversion of
  that body; when all four exchanges fail, the trace is four calls and requests with the
  delays 1, 2 and 4 seconds between them, and the result is NULL. In particular, when the
  first two exchanges fail and the third succeeds, the delays are 1 and 2 seconds, 3
  seconds in total.
\<close>

theorem ai_retry_backoff:
  "api_calls (snd (ai_service_parse_pdf read_pdf net parse nan path config)) \<le> 4 \<and>
   delays (snd (ai_service_parse_pdf read_pdf net parse nan path config)) =
     take (api_calls (snd (ai_service_parse_pdf read_pdf net parse nan path config)) - 1)
       [1000000, 2000000, 4000000] \<and>
   (path = Some p \<and> read_pdf p = Some b \<and> config = Some cfg \<and>
    provider cfg = ''anthropic'' \<and> api_key cfg \<noteq> None \<longrightarrow>
      (\<forall>k status reply.
         k \<le> 3 \<and> (\<forall>i<k. reply_failed (net i)) \<and>
         net k = HttpStatus status (Some reply) \<and> status < 400 \<longrightarrow>
         ai_service_parse_pdf read_pdf net parse nan path config =
           (parse_cba_json_to_result parse nan (Some reply),
            concat (map (\<lambda>i. [ApiCall ''anthropic'', HttpRequest, Usleep (1000000 * 2 ^ i)])
                      [0..<k]) @
            [ApiCall ''anthropic'', HttpRequest])) \<and>
      ((\<forall>i<4. reply_failed (net i)) \<longrightarrow>
         ai_service_parse_pdf read_pdf net parse nan path config =
           (None,
            [ApiCall ''anthropic'', HttpRequest, Usleep 1000000,
             ApiCall ''anthropic'', HttpRequest, Usleep 2000000,
             ApiCall ''anthropic'', HttpRequest, Usleep 4000000,
             ApiCall ''anthropic'', HttpRequest])) \<and>
      (reply_failed (net 0) \<and> reply_failed (net 1) \<and> net 2 = HttpStatus code (Some body) \<and>
       code < 400 \<longrightarrow>
         ai_service_parse_pdf read_pdf net parse nan path config =
           (parse_cba_json_to_result parse nan (Some body),
            [ApiCall ''anthropic'', HttpRequest, Usleep 1000000,
             ApiCall ''anthropic'', HttpRequest, Usleep 2000000,
             ApiCall ''anthropic'', HttpRequest]) \<and>
         sum_list (delays (snd (ai_service_parse_pdf read_pdf net parse nan path config))) =
           1000000 + 2000000))"
proof -
  have general:
    "api_calls (snd (ai_service_parse_pdf read_pdf net parse nan path config)) \<le> 4 \<and>
     delays (snd (ai_service_parse_pdf read_pdf net parse nan path config)) =
       take (api_calls (snd (ai_service_parse_pdf read_pdf net parse nan path config)) - 1)
         [1000000, 2000000, 4000000]"
    using retry_loop_trace0
    by (auto simp: ai_service_parse_pdf_def Let_def split: option.splits)
  have success:
    "ai_service_parse_pdf read_pdf net parse nan path config =
       (parse_cba_json_to_result parse nan (Some reply),
        concat (map (\<lambda>i. [ApiCall ''anthropic'', HttpRequest, Usleep (1000000 * 2 ^ i)])
                  [0..<k]) @
        [ApiCall ''anthropic'', HttpRequest])"
    if "path = Some p" "read_pdf p = Some b" "config = Some cfg"
      "provider cfg = ''anthropic''" "api_key cfg \<noteq> None"
      "k \<le> 3 \<and> (\<forall>i<k. reply_failed (net i)) \<and>
       net k = HttpStatus status (Some reply) \<and> status < 400"
    for k status reply
  proof -
    have "retry_loop net (Some b) cfg 0 (- 1) [] =
      (0, Some reply,
       concat (map (\<lambda>i. [ApiCall ''anthropic'', HttpRequest, Usleep (1000000 * 2 ^ i)]) [0..<k]) @
       [ApiCall ''anthropic'', HttpRequest])"
      using that(6) by (intro retry_loop_anthropic_success [OF that(4,5), of k net status reply])
        (elim conjE, assumption)+
    with that(1-3) show ?thesis
      by (simp add: ai_service_parse_pdf_def)
  qed
  have exhausted:
    "ai_service_parse_pdf read_pdf net parse nan path config =
       (None,
        [ApiCall ''anthropic'', HttpRequest, Usleep 1000000,
         ApiCall ''anthropic'', HttpRequest, Usleep 2000000,
         ApiCall ''anthropic'', HttpRequest, Usleep 4000000,
         ApiCall ''anthropic'', HttpRequest])"
    if "path = Some p" "read_pdf p = Some b" "config = Some cfg"
      "provider cfg = ''anthropic''" "api_key cfg \<noteq> None" "\<forall>i<4. reply_failed (net i)"
    using that retry_loop_anthropic_exhausted [OF that(4-6), of b "- 1"]
    by (simp add: ai_service_parse_pdf_def)
  have scenario:
    "ai_service_parse_pdf read_pdf net parse nan path config =
          (parse_cba_json_to_result parse nan (Some body),
           [ApiCall ''anthropic'', HttpRequest, Usleep 1000000,
            ApiCall ''anthropic'', HttpRequest, Usleep 2000000,
            ApiCall ''anthropic'', HttpRequest])"
    if "path = Some p" "read_pdf p = Some b" "config = Some cfg"
      "provider cfg = ''anthropic''" "api_key cfg \<noteq> None"
      "reply_failed (net 0)" "reply_failed (net 1)" "net 2 = HttpStatus code (Some body)" "code < 400"
    using that retry_loop_third_attempt [OF that(4-9), of b "- 1"]
    by (simp add: ai_service_parse_pdf_def)
  have sum: "sum_list (delays (snd (ai_service_parse_pdf read_pdf net parse nan path config))) =
           1000000 + 2000000"
    if "path = Some p" "read_pdf p = Some b" "config = Some cfg"
      "provider cfg = ''anthropic''" "api_key cfg \<noteq> None"
      "reply_failed (net 0)" "reply_failed (net 1)" "net 2 = HttpStatus code (Some body)" "code < 400"
    unfolding scenario [OF that] by simp
  show ?thesis
    using general success exhausted scenario sum by blast
qed

theorem ai_retry_backoff_witness:
  "(Some ''/tmp/cba_statement_7.pdf'' = Some ''/tmp/cba_statement_7.pdf'' \<and>
    (\<lambda>p. Some ''JVBERi0='') ''/tmp/cba_statement_7.pdf'' = Some ''JVBERi0='' \<and>
    provider \<lparr>provider = ''anthropic'', model = ''claude-3-5-sonnet-20241022'',
               api_key = Some ''key'', base_url = ''https://api.anthropic.com''\<rparr> = ''anthropic'' \<and>
    api_key \<lparr>provider = ''anthropic'', model = ''claude-3-5-sonnet-20241022'',
              api_key = Some ''key'', base_url = ''https://api.anthropic.com''\<rparr> \<noteq> None \<and>
    reply_failed TransportError \<and> reply_failed (HttpStatus 529 (Some ''overloaded'')) \<and>
    (200 :: int) < 400) \<and>
   ai_service_parse_pdf (\<lambda>p. Some ''JVBERi0='')
     (\<lambda>k. if k = 0 then TransportError else if k = 1 then HttpStatus 529 (Some ''overloaded'')
          else HttpStatus 200 (Some ''RESPONSE''))
     (\<lambda>s. if s = ''RESPONSE''
          then Some (cJSON_Object [(''account_number'', cJSON_String ''12345''),
                                   (''statement_period'', cJSON_String ''Jan 2025''),
                                   (''transactions'', cJSON_Array
                                      [cJSON_Object
                                         [(''date'', cJSON_String ''2025-01-31''),
                                          (''description'', cJSON_String ''Interest''),
                                          (''debit'', cJSON_Null),
                                          (''credit'', cJSON_Number 2),
                                          (''balance'', cJSON_Number 102)]])])
          else None)
     (- 1 :: rat) (Some ''/tmp/cba_statement_7.pdf'')
     (Some \<lparr>provider = ''anthropic'', model = ''claude-3-5-sonnet-20241022'',
             api_key = Some ''key'', base_url = ''https://api.anthropic.com''\<rparr>)
   = (Some \<lparr>account_number = Some ''12345'', statement_period = Some ''Jan 2025'',
             transactions = [\<lparr>date = Some ''2025-01-31'', description = Some ''Interest'',
                              debit = 0, credit = 2, category = None\<rparr>],
             error_message = None\<rparr>,
      [ApiCall ''anthropic'', HttpRequest, Usleep 1000000,
       ApiCall ''anthropic'', HttpRequest, Usleep 2000000,
       ApiCall ''anthropic'', HttpRequest]) \<and>
   ai_service_parse_pdf (\<lambda>p. Some ''JVBERi0='') (\<lambda>k. HttpStatus 529 (Some ''overloaded''))
     (\<lambda>s. None) (- 1 :: rat) (Some ''/tmp/cba_statement_7.pdf'')
     (Some \<lparr>provider = ''anthropic'', model = ''claude-3-5-sonnet-20241022'',
             api_key = Some ''key'', base_url = ''https://api.anthropic.com''\<rparr>)
   = (None,
      [ApiCall ''anthropic'', HttpRequest, Usleep 1000000,
       ApiCall ''anthropic'', HttpRequest, Usleep 2000000,
       ApiCall ''anthropic'', HttpRequest, Usleep 4000000,
       ApiCall ''anthropic'', HttpRequest]) \<and>
   ai_service_parse_pdf (\<lambda>p. Some ''JVBERi0='')
     (\<lambda>k. if k < 3 then TransportError else HttpStatus 200 (Some ''RESPONSE''))
     (\<lambda>s. if s = ''RESPONSE''
          then Some (cJSON_Object [(''account_number'', cJSON_String ''12345''),
                                   (''statement_period'', cJSON_String ''Jan 2025''),
                                   (''transactions'', cJSON_Array
                                      [cJSON_Object
                                         [(''date'', cJSON_String ''2025-01-31''),
                                          (''description'', cJSON_String ''Interest''),
                                          (''debit'', cJSON_Null),
                                          (''credit'', cJSON_Number 2),
                                          (''balance'', cJSON_Number 102)]])])
          else None)
     (- 1 :: rat) (Some ''/tmp/cba_statement_7.pdf'')
     (Some \<lparr>provider = ''anthropic'', model = ''claude-3-5-sonnet-20241022'',
             api_key = Some ''key'', base_url = ''https://api.anthropic.com''\<rparr>)
   = (Some \<lparr>account_number = Some ''12345'', statement_period = Some ''Jan 2025'',
             transactions = [\<lparr>date = Some ''2025-01-31'', description = Some ''Interest'',
                              debit = 0, credit = 2, category = None\<rparr>],
             error_message = None\<rparr>,
      [ApiCall ''anthropic'', HttpRequest, Usleep 1000000,
       ApiCall ''anthropic'', HttpRequest, Usleep 2000000,
       ApiCall ''anthropic'', HttpRequest, Usleep 4000000,
       ApiCall ''anthropic'', HttpRequest])"
proof -
  let ?cfg = "\<lparr>provider = ''anthropic'', model = ''claude-3-5-sonnet-20241022'',
             api_key = Some ''key'', base_url = ''https://api.anthropic.com''\<rparr>"
  let ?net = "\<lambda>k::nat. if k = 0 then TransportError
          else if k = 1 then HttpStatus 529 (Some ''overloaded'')
          else HttpStatus 200 (Some ''RESPONSE'')"
  let ?parse = "\<lambda>s. if s = ''RESPONSE''
          then Some (cJSON_Object [(''account_number'', cJSON_String ''12345''),
                                   (''statement_period'', cJSON_String ''Jan 2025''),
                                   (''transactions'', cJSON_Array
                                      [cJSON_Object
                                         [(''date'', cJSON_String ''2025-01-31''),
                                          (''description'', cJSON_String ''Interest''),
                                          (''debit'', cJSON_Null),
                                          (''credit'', cJSON_Number (2 :: rat)),
                                          (''balance'', cJSON_Number 102)]])])
          else None"
  have rf: "reply_failed TransportError" "reply_failed (HttpStatus 529 (Some ''overloaded''))"
    by (simp_all add: reply_failed_def)
  note T1 = ai_retry_backoff
    [where path = "Some ''/tmp/cba_statement_7.pdf''" and p = "''/tmp/cba_statement_7.pdf''"
       and read_pdf = "\<lambda>p. Some ''JVBERi0=''" and b = "''JVBERi0=''"
       and config = "Some ?cfg" and cfg = ?cfg and net = ?net
       and code = 200 and body = "''RESPONSE''" and parse = ?parse and nan = "- 1 :: rat",
     THEN conjunct2, THEN conjunct2, THEN mp, THEN conjunct2, THEN conjunct2, THEN mp,
     THEN conjunct1]
  note T2 = ai_retry_backoff
    [where path = "Some ''/tmp/cba_statement_7.pdf''" and p = "''/tmp/cba_statement_7.pdf''"
       and read_pdf = "\<lambda>p. Some ''JVBERi0=''" and b = "''JVBERi0=''"
       and config = "Some ?cfg" and cfg = ?cfg and net = "\<lambda>k. HttpStatus 529 (Some ''overloaded'')"
       and parse = "\<lambda>s. None" and nan = "- 1 :: rat",
     THEN conjunct2, THEN conjunct2, THEN mp, THEN conjunct2, THEN conjunct1, THEN mp]
  have a: "ai_service_parse_pdf (\<lambda>p. Some ''JVBERi0='') ?net ?parse (- 1 :: rat)
      (Some ''/tmp/cba_statement_7.pdf'') (Some ?cfg) =
      (parse_cba_json_to_result ?parse (- 1) (Some ''RESPONSE''),
       [ApiCall ''anthropic'', HttpRequest, Usleep 1000000,
        ApiCall ''anthropic'', HttpRequest, Usleep 2000000,
        ApiCall ''anthropic'', HttpRequest])"
    by (rule T1) (simp_all add: rf)
  have b: "ai_service_parse_pdf (\<lambda>p. Some ''JVBERi0='') (\<lambda>k. HttpStatus 529 (Some ''overloaded''))
      (\<lambda>s. None) (- 1 :: rat) (Some ''/tmp/cba_statement_7.pdf'') (Some ?cfg) =
      (None,
       [ApiCall ''anthropic'', HttpRequest, Usleep 1000000,
        ApiCall ''anthropic'', HttpRequest, Usleep 2000000,
        ApiCall ''anthropic'', HttpRequest, Usleep 4000000,
        ApiCall ''anthropic'', HttpRequest])"
    by (rule T2) (simp_all add: rf)
  note T3 = ai_retry_backoff
    [where path = "Some ''/tmp/cba_statement_7.pdf''" and p = "''/tmp/cba_statement_7.pdf''"
       and read_pdf = "\<lambda>p. Some ''JVBERi0=''" and b = "''JVBERi0=''"
       and config = "Some ?cfg" and cfg = ?cfg
       and net = "\<lambda>k. if k < 3 then TransportError else HttpStatus 200 (Some ''RESPONSE'')"
       and parse = ?parse and nan = "- 1 :: rat",
     THEN conjunct2, THEN conjunct2, THEN mp, THEN conjunct1, THEN spec [of _ 3],
     THEN spec [of _ 200], THEN spec [of _ "''RESPONSE''"], THEN mp]
  have d: "ai_service_parse_pdf (\<lambda>p. Some ''JVBERi0='')
      (\<lambda>k. if k < 3 then TransportError else HttpStatus 200 (Some ''RESPONSE''))
      ?parse (- 1 :: rat) (Some ''/tmp/cba_statement_7.pdf'') (Some ?cfg) =
      (parse_cba_json_to_result ?parse (- 1) (Some ''RESPONSE''),
       [ApiCall ''anthropic'', HttpRequest, Usleep 1000000,
        ApiCall ''anthropic'', HttpRequest, Usleep 2000000,
        ApiCall ''anthropic'', HttpRequest, Usleep 4000000,
        ApiCall ''anthropic'', HttpRequest])"
    using T3 by (simp add: rf numeral_3_eq_3)
  have c: "parse_cba_json_to_result ?parse (- 1) (Some ''RESPONSE'') =
     Some \<lparr>account_number = Some ''12345'', statement_period = Some ''Jan 2025'',
             transactions = [\<lparr>date = Some ''2025-01-31'', description = Some ''Interest'',
                              debit = 0, credit = 2, category = None\<rparr>],
             error_message = None\<rparr>"
    by (simp add: parse_cba_json_to_result_def validate_cba_json_response_def
      cJSON_GetObjectItem_def strcasecmp_eq_def cJSON_IsString_def cJSON_IsArray_def
      array_items_def cJSON_GetStringValue_def transaction_rejected_def cJSON_IsNumber_def
      is_valid_iso_date_def c_isdigit_def is_valid_amount_def cJSON_GetNumberValue_def
      json_transaction_def cJSON_IsNull_def)
  show ?thesis
    unfolding a b c d by (simp add: rf)
qed

section \<open>Properties of the categorisation engine\<close>

lemma categorise_rules_first:
  "\<forall>q \<in> set pre. \<not> rule_matches m q d \<Longrightarrow> rule_matches m r d \<Longrightarrow>
   categorise_rules m d (pre @ r # post) = Some (rule_category r)"
  by (induction pre) (auto simp: rule_matches_def split: option.splits)

lemma categorise_rules_none:
  "\<forall>q \<in> set rs. \<not> rule_matches m q d \<Longrightarrow> categorise_rules m d rs = None"
  by (induction rs) (auto simp: rule_matches_def split: option.splits)

lemma categorise_transaction_keeps:
  "category t \<noteq> None \<Longrightarrow> categorise_transaction m t cfg = t"
  by (simp add: categorise_transaction_def split: option.splits)

text \<open>
  C7. Categorisation is idempotent: a transaction that already has a category is returned
  unchanged by any number of categorisation runs, whatever the rules and the default are.
\<close>

theorem categorise_idempotent:
  "category t \<noteq> None \<Longrightarrow> ((\<lambda>x. categorise_transaction m x cfg) ^^ n) t = t"
  by (induction n) (simp_all add: categorise_transaction_keeps)

theorem categorise_idempotent_witness:
  "category \<lparr>date = Some ''2025-05-30'', description = Some ''COFFEE SHOP'', debit = 4 :: int,
             credit = 0, category = Some ''Food''\<rparr> \<noteq> None \<and>
   ((\<lambda>x. categorise_transaction (\<lambda>re d. if re = d then 0 else - 1) x
            (Some \<lparr>default_category = Some ''Uncategorised'',
                   rules = [\<lparr>pattern = ''COFFEE SHOP'', rule_category = ''Cafe'',
                             compiled_regex = Some ''COFFEE SHOP''\<rparr>]\<rparr>)) ^^ 2)
      \<lparr>date = Some ''2025-05-30'', description = Some ''COFFEE SHOP'', debit = 4 :: int,
        credit = 0, category = Some ''Food''\<rparr>
   = \<lparr>date = Some ''2025-05-30'', description = Some ''COFFEE SHOP'', debit = 4 :: int,
        credit = 0, category = Some ''Food''\<rparr>"
  using categorise_idempotent
    [where t = "\<lparr>date = Some ''2025-05-30'', description = Some ''COFFEE SHOP'', debit = 4 :: int,
          credit = 0, category = Some ''Food''\<rparr>"
       and m = "\<lambda>re d. if re = d then 0 else - 1"
       and cfg = "Some \<lparr>default_category = Some ''Uncategorised'',
               rules = [\<lparr>pattern = ''COFFEE SHOP'', rule_category = ''Cafe'',
                         compiled_regex = Some ''COFFEE SHOP''\<rparr>]\<rparr>"
       and n = 2]
  by simp

lemma categorise_rules_first':
  "list_all (\<lambda>q. \<not> rule_matches m q d) pre \<Longrightarrow> rule_matches m r d \<Longrightarrow>
   categorise_rules m d (pre @ r # post) = Some (rule_category r)"
  by (rule categorise_rules_first) (simp_all add: list_all_iff)

text \<open>
  C8. For a transaction without a category and with a description: when the rule list
  is \<open>pre @ r # post\<close>, no rule of \<open>pre\<close> matches the description and \<open>r\<close> does, the
  transaction gets the category of \<open>r\<close>, whatever rules of \<open>post\<close> match as well; when
  no rule matches, it gets the default category. Nothing else in it changes. When a
  pattern matches is the PCRE2 engine's business (the rules are compiled caseless in
  \<open>load_config\<close>); the theorem holds for every engine.
\<close>

theorem first_matching_rule_wins:
  assumes "category t = None" and "description t = Some d"
  shows "(rules cfg = pre @ r # post \<and> list_all (\<lambda>q. \<not> rule_matches m q d) pre \<and>
          rule_matches m r d \<longrightarrow>
          categorise_transaction m t (Some cfg) = t\<lparr>category := Some (rule_category r)\<rparr>) \<and>
         (list_all (\<lambda>q. \<not> rule_matches m q d) (rules cfg) \<longrightarrow>
          categorise_transaction m t (Some cfg) = t\<lparr>category := default_category cfg\<rparr>)"
proof (intro conjI impI)
  assume "rules cfg = pre @ r # post \<and> list_all (\<lambda>q. \<not> rule_matches m q d) pre \<and>
          rule_matches m r d"
  then have "categorise_rules m d (rules cfg) = Some (rule_category r)"
    by (simp add: categorise_rules_first')
  with assms show "categorise_transaction m t (Some cfg) = t\<lparr>category := Some (rule_category r)\<rparr>"
    by (simp add: categorise_transaction_def safe_strdup_def)
next
  assume "list_all (\<lambda>q. \<not> rule_matches m q d) (rules cfg)"
  then have "categorise_rules m d (rules cfg) = None"
    by (intro categorise_rules_none) (simp add: list_all_iff)
  with assms show "categorise_transaction m t (Some cfg) = t\<lparr>category := default_category cfg\<rparr>"
    by (simp add: categorise_transaction_def safe_strdup_def)
qed

theorem first_matching_rule_wins_witness:
  "category \<lparr>date = Some ''2025-05-30'', description = Some ''COFFEE SHOP SYDNEY'',
             debit = 4 :: rat, credit = 0, category = None\<rparr> = None \<and>
   description \<lparr>date = Some ''2025-05-30'', description = Some ''COFFEE SHOP SYDNEY'',
             debit = 4 :: rat, credit = 0, category = None\<rparr> = Some ''COFFEE SHOP SYDNEY'' \<and>
   list_all (\<lambda>q. \<not> rule_matches caseless_find q ''COFFEE SHOP SYDNEY'')
     [\<lparr>pattern = ''grocer'', rule_category = ''Groceries'', compiled_regex = Some ''grocer''\<rparr>] \<and>
   rule_matches caseless_find
     \<lparr>pattern = ''coffee'', rule_category = ''Cafe'', compiled_regex = Some ''coffee''\<rparr>
     ''COFFEE SHOP SYDNEY'' \<and>
   rule_matches caseless_find
     \<lparr>pattern = ''shop'', rule_category = ''Shopping'', compiled_regex = Some ''shop''\<rparr>
     ''COFFEE SHOP SYDNEY'' \<and>
   categorise_transaction caseless_find
     \<lparr>date = Some ''2025-05-30'', description = Some ''COFFEE SHOP SYDNEY'',
       debit = 4 :: rat, credit = 0, category = None\<rparr>
     (Some \<lparr>default_category = Some ''Uncategorised'',
            rules = [\<lparr>pattern = ''grocer'', rule_category = ''Groceries'',
                      compiled_regex = Some ''grocer''\<rparr>,
                     \<lparr>pattern = ''coffee'', rule_category = ''Cafe'',
                      compiled_regex = Some ''coffee''\<rparr>,
                     \<lparr>pattern = ''shop'', rule_category = ''Shopping'',
                      compiled_regex = Some ''shop''\<rparr>]\<rparr>) =
     \<lparr>date = Some ''2025-05-30'', description = Some ''COFFEE SHOP SYDNEY'',
       debit = 4 :: rat, credit = 0, category = Some ''Cafe''\<rparr> \<and>
   list_all (\<lambda>q. \<not> rule_matches caseless_find q ''COFFEE SHOP SYDNEY'')
     (rules \<lparr>default_category = Some ''Uncategorised'',
             rules = [\<lparr>pattern = ''grocer'', rule_category = ''Groceries'',
                       compiled_regex = Some ''grocer''\<rparr>]\<rparr>) \<and>
   categorise_transaction caseless_find
     \<lparr>date = Some ''2025-05-30'', description = Some ''COFFEE SHOP SYDNEY'',
       debit = 4 :: rat, credit = 0, category = None\<rparr>
     (Some \<lparr>default_category = Some ''Uncategorised'',
            rules = [\<lparr>pattern = ''grocer'', rule_category = ''Groceries'',
                      compiled_regex = Some ''grocer''\<rparr>]\<rparr>) =
     \<lparr>date = Some ''2025-05-30'', description = Some ''COFFEE SHOP SYDNEY'',
       debit = 4 :: rat, credit = 0, category = Some ''Uncategorised''\<rparr>"
proof -
  let ?t = "\<lparr>date = Some ''2025-05-30'', description = Some ''COFFEE SHOP SYDNEY'',
             debit = 4 :: rat, credit = 0, category = None\<rparr>"
  let ?r1 = "\<lparr>pattern = ''grocer'', rule_category = ''Groceries'', compiled_regex = Some ''grocer''\<rparr>"
  let ?r2 = "\<lparr>pattern = ''coffee'', rule_category = ''Cafe'', compiled_regex = Some ''coffee''\<rparr>"
  let ?r3 = "\<lparr>pattern = ''shop'', rule_category = ''Shopping'', compiled_regex = Some ''shop''\<rparr>"
  have lower: "map c_tolower ''COFFEE SHOP SYDNEY'' = ''coffee shop sydney''"
    "map c_tolower ''grocer'' = ''grocer''" "map c_tolower ''coffee'' = ''coffee''"
    "map c_tolower ''shop'' = ''shop''"
    by (simp_all add: c_tolower_def)
  have m: "caseless_find ''grocer'' ''COFFEE SHOP SYDNEY'' = - 1"
    "caseless_find ''coffee'' ''COFFEE SHOP SYDNEY'' = 0"
    "caseless_find ''shop'' ''COFFEE SHOP SYDNEY'' = 0"
    unfolding caseless_find_def lower by simp_all
  have rm: "\<not> rule_matches caseless_find ?r1 ''COFFEE SHOP SYDNEY''"
    "rule_matches caseless_find ?r2 ''COFFEE SHOP SYDNEY''"
    "rule_matches caseless_find ?r3 ''COFFEE SHOP SYDNEY''"
    by (simp_all add: rule_matches_def m)
  show ?thesis
    using first_matching_rule_wins [of ?t "''COFFEE SHOP SYDNEY''"
        "\<lparr>default_category = Some ''Uncategorised'', rules = [?r1, ?r2, ?r3]\<rparr>"
        "[?r1]" ?r2 "[?r3]" caseless_find]
      first_matching_rule_wins [of ?t "''COFFEE SHOP SYDNEY''"
        "\<lparr>default_category = Some ''Uncategorised'', rules = [?r1]\<rparr>"
        "[]" ?r2 "[]" caseless_find]
      rm
    by simp
qed

end
